theory Spec2Isabelle
  imports Main "HOL-Library.Word"
begin

section \<open>JavaScript strings\<close>

text \<open>
  A JavaScript string is a sequence of 16-bit UTF-16 code units; \<^verbatim>\<open>length\<close>,
  \<^verbatim>\<open>substring\<close>, \<^verbatim>\<open>split\<close>, \<^verbatim>\<open>trim\<close> and the regular expression
  \<^verbatim>\<open>/\s+/g\<close> all work on code units.  String literals of the program are
  written \<open>js ''...''\<close>.
\<close>

type_synonym jschar = "16 word"
type_synonym jsstring = "jschar list"

definition js :: "string \<Rightarrow> jsstring" where
  "js s = map of_char s"

definition comma :: jschar where
  "comma = 0x2C"

definition hyphen :: jschar where
  "hyphen = 0x2D"

text \<open>
  The code units that \<^verbatim>\<open>String.prototype.trim\<close> strips and that \<^verbatim>\<open>\s\<close> matches:
  ECMAScript's WhiteSpace (TAB, VT, FF, SP, NBSP, ZWNBSP and the Unicode
  space separators) together with LineTerminator (LF, CR, LS, PS).
\<close>

definition isWhiteSpace :: "jschar \<Rightarrow> bool" where
  "isWhiteSpace c \<longleftrightarrow>
     c = 0x09 \<or> c = 0x0A \<or> c = 0x0B \<or> c = 0x0C \<or> c = 0x0D \<or> c = 0x20 \<or>
     c = 0xA0 \<or> c = 0x1680 \<or> (0x2000 \<le> c \<and> c \<le> 0x200A) \<or>
     c = 0x2028 \<or> c = 0x2029 \<or> c = 0x202F \<or> c = 0x205F \<or> c = 0x3000 \<or>
     c = 0xFEFF"

text \<open>\<^verbatim>\<open>s.trim()\<close>: white space removed from both ends.\<close>

definition trim :: "jsstring \<Rightarrow> jsstring" where
  "trim s = rev (dropWhile isWhiteSpace (rev (dropWhile isWhiteSpace s)))"

text \<open>
  \<^verbatim>\<open>s.split(sep)\<close> for a one-unit separator: the pieces between the
  separators, empty pieces included; the empty string gives one empty piece.
  The result is never empty, so the \<open>[]\<close> branch of the case is never taken.
\<close>

fun split :: "jschar \<Rightarrow> jsstring \<Rightarrow> jsstring list" where
  "split sep [] = [[]]"
| "split sep (c # cs) =
     (if c = sep then [] # split sep cs
      else (case split sep cs of [] \<Rightarrow> [[c]] | p # ps \<Rightarrow> (c # p) # ps))"

text \<open>
  \<^verbatim>\<open>s.replace(/\s+/g, "-")\<close>: every maximal run of white space becomes one
  hyphen, every other code unit is kept.
\<close>

function replaceWhitespace :: "jsstring \<Rightarrow> jsstring" where
  "replaceWhitespace [] = []"
| "replaceWhitespace (c # cs) =
     (if isWhiteSpace c then hyphen # replaceWhitespace (dropWhile isWhiteSpace cs)
      else c # replaceWhitespace cs)"
  by pat_completeness auto
termination
  by (relation "measure length") (auto simp: length_dropWhile_le less_Suc_eq_le)

text \<open>\<^verbatim>\<open>s.substring(0, n)\<close>: the first \<open>n\<close> code units, all of \<open>s\<close> when it is shorter.\<close>

definition substring0 :: "nat \<Rightarrow> jsstring \<Rightarrow> jsstring" where
  "substring0 n s = take n s"

text \<open>
  The ASCII fragment of the case mapping: \<^verbatim>\<open>A\<close>..\<^verbatim>\<open>Z\<close> go to \<^verbatim>\<open>a\<close>..\<^verbatim>\<open>z\<close>,
  every other code unit stays.  \<^verbatim>\<open>String.prototype.toLowerCase\<close> itself works
  from the Unicode tables of the runtime, which are no part of the repository:
  the model takes it as a parameter (\<open>toLowerCase\<close> of the environment below),
  and \<open>asciiLower\<close> is the instance used to run the model on ASCII text.
\<close>

definition lowerUnit :: "jschar \<Rightarrow> jschar" where
  "lowerUnit c = (if 0x41 \<le> c \<and> c \<le> 0x5A then c + 0x20 else c)"

definition asciiLower :: "jsstring \<Rightarrow> jsstring" where
  "asciiLower s = map lowerUnit s"

section \<open>Data model\<close>

text \<open>An exception value: \<^verbatim>\<open>error.status\<close> (absent on non-HTTP errors) and \<^verbatim>\<open>error.message\<close>.\<close>

datatype error = Error (status: "nat option") (message: jsstring)

text \<open>
  How a piece of the program ends: with a value, with an exception on its way
  to the next enclosing \<^verbatim>\<open>catch\<close>, or in \<^verbatim>\<open>process.exit(n)\<close>.
\<close>

datatype 'a result = Value 'a | Thrown error | Exit nat

text \<open>The fields of a repository object of the hosting API that the program reads.\<close>

record repository =
  repo_name :: jsstring
  repo_full_name :: jsstring
  repo_owner_login :: jsstring
  repo_description :: "jsstring option"
  repo_homepage :: "jsstring option"
  repo_topics :: "jsstring list option"
  repo_language :: "jsstring option"
  repo_private :: bool
  repo_default_branch :: jsstring

text \<open>A value produced by \<^verbatim>\<open>JSON.parse\<close>.\<close>

datatype json =
  JNull | JBool bool | JNum int | JStr jsstring | JArr "json list" | JObj "(jsstring \<times> json) list"

text \<open>
  The \<^verbatim>\<open>context\<close> object of \<^verbatim>\<open>getRepositoryContext\<close>.  \<open>ctx_packageJson\<close> starts as
  \<^verbatim>\<open>null\<close>; the property \<^verbatim>\<open>configFile\<close> is absent until the scan sets it to
  \<^verbatim>\<open>{ name, content }\<close>.
\<close>

record repoContext =
  ctx_name :: jsstring
  ctx_fullName :: jsstring
  ctx_description :: jsstring
  ctx_language :: jsstring
  ctx_topics :: "jsstring list"
  ctx_isPrivate :: bool
  ctx_defaultBranch :: jsstring
  ctx_files :: "jsstring list"
  ctx_packageJson :: json
  ctx_configFile :: "(string \<times> jsstring) option"

text \<open>An entry of the recursive tree listing.\<close>

record tree_item =
  item_type :: jsstring
  item_path :: jsstring

text \<open>The \<^verbatim>\<open>generatedData\<close> object of \<^verbatim>\<open>main\<close>; a property not yet set is \<open>None\<close>.\<close>

record generatedData =
  gen_description :: "jsstring option"
  gen_website :: "jsstring option"
  gen_topics :: "jsstring list option"
  gen_readme :: "jsstring option"

section \<open>The environment and the observable events\<close>

text \<open>
  Everything the program receives from outside during one run: the answers
  of the hosting API, of the text-generation service and of the user, and the
  library functions whose tables are not in the repository.  Each external
  call of a run has its own answer, so two calls of the same endpoint (the two
  README lookups) may disagree.  An answer \<open>Inl e\<close> means that the call throws \<open>e\<close>.
  \<^item> \<open>getTree\<close> answers \<^verbatim>\<open>git.getTree\<close> with the array \<^verbatim>\<open>tree.tree\<close>; \<open>Inl\<close>
    also stands for an answer without that array, on which the next
    statement throws into the same handler;
  \<^item> \<open>getContent p\<close> answers \<^verbatim>\<open>repos.getContent\<close> for path \<open>p\<close> with the
    \<^verbatim>\<open>content\<close> property of the data (absent for a directory listing);
  \<^item> \<open>getReadme_check\<close> and \<open>getReadme_apply\<close> answer the lookup of the gap
    check and the one of the apply step, with the \<^verbatim>\<open>sha\<close> of the file;
  \<^item> \<open>chat g\<close> answers the completion request of generator \<open>g\<close> with
    \<^verbatim>\<open>choices[0].message.content\<close>; the prompt is built from the context, and
    since the answer is an input of the model the prompt text is not modelled;
    \<open>Inl\<close> also stands for an answer without a content string;
  \<^item> \<open>fromBase64\<close> is \<^verbatim>\<open>Buffer.from(s, "base64").toString()\<close>, \<open>toBase64\<close> is
    \<^verbatim>\<open>Buffer.from(s).toString("base64")\<close>.
\<close>

record env =
  toLowerCase :: "jsstring \<Rightarrow> jsstring"
  fromBase64 :: "jsstring \<Rightarrow> jsstring"
  toBase64 :: "jsstring \<Rightarrow> jsstring"
  jsonParse :: "jsstring \<Rightarrow> error + json"
  getReadme_check :: "error + jsstring"
  confirm_regenerate :: bool
  checkbox_answer :: "string list"
  getTree :: "error + tree_item list"
  getContent :: "string \<Rightarrow> error + jsstring option"
  chat :: "string \<Rightarrow> error + jsstring"
  confirm_apply :: bool
  repos_update :: "error + unit"
  replaceAllTopics :: "error + unit"
  getReadme_apply :: "error + jsstring"
  createOrUpdateFileContents :: "error + unit"

text \<open>
  What a run does to the outside, in order.  Console lines carry their fixed
  text without colours and symbols; \<open>ConsoleError t m\<close> is a line on the error
  stream with text \<open>t\<close> followed by the message \<open>m\<close> of the error.
\<close>

datatype event =
    ConsoleLog string
  | ConsoleError string jsstring
  | CallGetReadme
  | CallGetTree
  | CallGetContent string
  | CallChat string nat
  | PromptConfirm string bool
  | PromptCheckbox "(string \<times> bool) list"
  | CallUpdate "jsstring option" "jsstring option"
  | CallReplaceAllTopics "jsstring list"
  | CallCreateOrUpdateFileContents string string jsstring "jsstring option"

type_synonym 'a io = "event list \<times> 'a result"

section \<open>Field generators\<close>

text \<open>
  \<^verbatim>\<open>generateDescription\<close>: one completion request (100 tokens); an exception of
  the service propagates; the content is trimmed and cut to 350 code units.
\<close>

definition generateDescription :: "env \<Rightarrow> repoContext \<Rightarrow> jsstring io" where
  "generateDescription e ctx =
     ([CallChat ''description'' 100],
      case chat e ''description'' of
        Inl err \<Rightarrow> Thrown err
      | Inr content \<Rightarrow> Value (substring0 350 (trim content)))"

text \<open>\<^verbatim>\<open>generateWebsite\<close>: the content, trimmed.\<close>

definition generateWebsite :: "env \<Rightarrow> repoContext \<Rightarrow> jsstring io" where
  "generateWebsite e ctx =
     ([CallChat ''website'' 100],
      case chat e ''website'' of
        Inl err \<Rightarrow> Thrown err
      | Inr content \<Rightarrow> Value (trim content))"

text \<open>
  The last statement of \<^verbatim>\<open>generateTopics\<close>, on the trimmed content
  \<^verbatim>\<open>topicsText\<close>: split, map, filter, slice.
\<close>

definition normalizeTopic :: "(jsstring \<Rightarrow> jsstring) \<Rightarrow> jsstring \<Rightarrow> jsstring" where
  "normalizeTopic lower t = replaceWhitespace (lower (trim t))"

definition validTopic :: "jsstring \<Rightarrow> bool" where
  "validTopic t \<longleftrightarrow> length t > 0 \<and> length t \<le> 50"

definition parseTopics :: "(jsstring \<Rightarrow> jsstring) \<Rightarrow> jsstring \<Rightarrow> jsstring list" where
  "parseTopics lower topicsText =
     take 10 (filter validTopic (map (normalizeTopic lower) (split comma topicsText)))"

definition generateTopics :: "env \<Rightarrow> repoContext \<Rightarrow> jsstring list io" where
  "generateTopics e ctx =
     ([CallChat ''topics'' 150],
      case chat e ''topics'' of
        Inl err \<Rightarrow> Thrown err
      | Inr content \<Rightarrow> Value (parseTopics (toLowerCase e) (trim content)))"

text \<open>\<^verbatim>\<open>generateReadme\<close>: the content, trimmed.\<close>

definition generateReadme :: "env \<Rightarrow> repoContext \<Rightarrow> jsstring io" where
  "generateReadme e ctx =
     ([CallChat ''readme'' 2000],
      case chat e ''readme'' of
        Inl err \<Rightarrow> Thrown err
      | Inr content \<Rightarrow> Value (trim content))"

text \<open>
  The topics post-processing as the specification words it, for comparison
  with \<open>generateTopics\<close>: split the returned text on commas; for each piece trim,
  lowercase, replace runs of white space with a single hyphen; drop empty
  results and results longer than 50; keep the first 10.
\<close>

definition spec_topics :: "(jsstring \<Rightarrow> jsstring) \<Rightarrow> jsstring \<Rightarrow> jsstring list" where
  "spec_topics lower text =
     take 10
       (filter (\<lambda>t. t \<noteq> [] \<and> \<not> 50 < length t)
          (map (\<lambda>piece. replaceWhitespace (lower (trim piece))) (split comma text)))"

section \<open>Sequencing\<close>

text \<open>
  The program is one sequence of awaited calls.  \<open>andThen\<close> runs a second
  piece after a first one that ended with a value; an exception or an exit
  of the first piece skips the second.  \<open>tryCatch\<close> is \<^verbatim>\<open>try { ... } catch (error) { ... }\<close>:
  it handles an exception and lets a value or an exit through.
\<close>

definition ret :: "'a \<Rightarrow> 'a io" where
  "ret x = ([], Value x)"

definition andThen :: "'a io \<Rightarrow> ('a \<Rightarrow> 'b io) \<Rightarrow> 'b io" where
  "andThen m f =
     (case snd m of
        Value x \<Rightarrow> (fst m @ fst (f x), snd (f x))
      | Thrown err \<Rightarrow> (fst m, Thrown err)
      | Exit n \<Rightarrow> (fst m, Exit n))"

definition tryCatch :: "'a io \<Rightarrow> (error \<Rightarrow> 'a io) \<Rightarrow> 'a io" where
  "tryCatch m handler =
     (case snd m of
        Value x \<Rightarrow> (fst m, Value x)
      | Thrown err \<Rightarrow> (fst m @ fst (handler err), snd (handler err))
      | Exit n \<Rightarrow> (fst m, Exit n))"

text \<open>An external call: the event, then the value or the exception of its answer.\<close>

definition call :: "event \<Rightarrow> error + 'a \<Rightarrow> 'a io" where
  "call ev answer = ([ev], case answer of Inl err \<Rightarrow> Thrown err | Inr x \<Rightarrow> Value x)"

definition say :: "string \<Rightarrow> unit io" where
  "say text = ([ConsoleLog text], Value ())"

definition sayError :: "string \<Rightarrow> jsstring \<Rightarrow> unit io" where
  "sayError text msg = ([ConsoleError text msg], Value ())"

definition exit :: "nat \<Rightarrow> 'a io" where
  "exit n = ([], Exit n)"

text \<open>Truthiness of a string property that may be absent: present and not empty.\<close>

definition truthy :: "jsstring option \<Rightarrow> bool" where
  "truthy x = (case x of None \<Rightarrow> False | Some s \<Rightarrow> s \<noteq> [])"

text \<open>\<^verbatim>\<open>xs.join(sep)\<close>.\<close>

fun join :: "string \<Rightarrow> string list \<Rightarrow> string" where
  "join sep [] = []"
| "join sep [x] = x"
| "join sep (x # y # ys) = x @ sep @ join sep (y # ys)"

section \<open>Context builder\<close>

text \<open>The object literal at the head of \<^verbatim>\<open>getRepositoryContext\<close>.\<close>

definition seedContext :: "repository \<Rightarrow> repoContext" where
  "seedContext repo =
     \<lparr> ctx_name = repo_name repo,
       ctx_fullName = repo_full_name repo,
       ctx_description = (case repo_description repo of None \<Rightarrow> [] | Some d \<Rightarrow> d),
       ctx_language =
         (case repo_language repo of
            None \<Rightarrow> js ''Unknown''
          | Some l \<Rightarrow> if l = [] then js ''Unknown'' else l),
       ctx_topics = (case repo_topics repo of None \<Rightarrow> [] | Some ts \<Rightarrow> ts),
       ctx_isPrivate = repo_private repo,
       ctx_defaultBranch = repo_default_branch repo,
       ctx_files = [],
       ctx_packageJson = JNull,
       ctx_configFile = None \<rparr>"

text \<open>
  The \<^verbatim>\<open>try\<close> block around \<^verbatim>\<open>package.json\<close>: the new value of
  \<^verbatim>\<open>context.packageJson\<close>.  A failing fetch, an absent or empty content and
  a failing \<^verbatim>\<open>JSON.parse\<close> all leave the old value.
\<close>

definition fetchPackageJson :: "env \<Rightarrow> json \<Rightarrow> event list \<times> json" where
  "fetchPackageJson e current =
     ([CallGetContent ''package.json''],
      case getContent e ''package.json'' of
        Inl err \<Rightarrow> current
      | Inr None \<Rightarrow> current
      | Inr (Some content) \<Rightarrow>
          if content \<noteq> [] then
            (case jsonParse e (fromBase64 e content) of
               Inl err \<Rightarrow> current
             | Inr parsed \<Rightarrow> parsed)
          else current)"

definition configFiles :: "string list" where
  "configFiles =
     [''Cargo.toml'', ''pyproject.toml'', ''setup.py'', ''go.mod'', ''pom.xml'', ''build.gradle'']"

text \<open>
  One round of the loop over \<^verbatim>\<open>configFiles\<close>: the object assigned to
  \<^verbatim>\<open>context.configFile\<close> when the fetch returns a non-empty content (the
  loop then breaks), \<open>None\<close> when the fetch throws or the content is absent
  or empty (the loop goes on).
\<close>

definition probeConfig :: "env \<Rightarrow> string \<Rightarrow> (string \<times> jsstring) option" where
  "probeConfig e configFile =
     (case getContent e configFile of
        Inl err \<Rightarrow> None
      | Inr None \<Rightarrow> None
      | Inr (Some content) \<Rightarrow>
          if content \<noteq> [] then Some (configFile, fromBase64 e content) else None)"

fun scanConfigFiles :: "env \<Rightarrow> string list \<Rightarrow> event list \<times> (string \<times> jsstring) option" where
  "scanConfigFiles e [] = ([], None)"
| "scanConfigFiles e (configFile # rest) =
     (case probeConfig e configFile of
        Some config \<Rightarrow> ([CallGetContent configFile], Some config)
      | None \<Rightarrow>
          (CallGetContent configFile # fst (scanConfigFiles e rest),
           snd (scanConfigFiles e rest)))"

text \<open>
  \<^verbatim>\<open>getRepositoryContext\<close>.  Inside the outer \<^verbatim>\<open>try\<close> only the tree fetch can
  throw to the outer \<^verbatim>\<open>catch\<close>: the two later blocks have handlers of their
  own.  The outer handler prints the warning and the function returns the
  context as it stands.
\<close>

definition getRepositoryContext :: "env \<Rightarrow> repository \<Rightarrow> repoContext io" where
  "getRepositoryContext e repo =
     (let context0 = seedContext repo in
      case getTree e of
        Inl err \<Rightarrow>
          ([CallGetTree, ConsoleLog ''Warning: Could not fetch full repository context''],
           Value context0)
      | Inr tree \<Rightarrow>
          (let files =
                 take 100 (map item_path (filter (\<lambda>item. item_type item = js ''blob'') tree));
               manifest = fetchPackageJson e (ctx_packageJson context0);
               config = scanConfigFiles e configFiles
           in (CallGetTree # fst manifest @ fst config,
               Value (context0\<lparr> ctx_files := files,
                               ctx_packageJson := snd manifest,
                               ctx_configFile := snd config \<rparr>))))"

text \<open>A recognized file counts as found when its fetch returns a non-empty content.\<close>

definition found :: "env \<Rightarrow> string \<Rightarrow> bool" where
  "found e f = (case getContent e f of Inr (Some content) \<Rightarrow> content \<noteq> [] | _ \<Rightarrow> False)"

section \<open>The run after a repository has been selected\<close>

text \<open>
  \<^verbatim>\<open>main\<close> from the line after the search prompt, where \<^verbatim>\<open>selectedRepo\<close> is
  known.  The owner and repository name passed to every API call are the
  same throughout and are left out of the events.
\<close>

text \<open>The test \<^verbatim>\<open>!x || x.trim() === ""\<close>.\<close>

definition blank :: "jsstring option \<Rightarrow> bool" where
  "blank x = (case x of None \<Rightarrow> True | Some s \<Rightarrow> s = [] \<or> trim s = [])"

text \<open>The three tests on the fields of \<^verbatim>\<open>selectedRepo\<close>.\<close>

definition missingMetadata :: "repository \<Rightarrow> string list" where
  "missingMetadata selectedRepo =
     (if blank (repo_description selectedRepo) then [''description''] else []) @
     (if blank (repo_homepage selectedRepo) then [''website''] else []) @
     (if (case repo_topics selectedRepo of None \<Rightarrow> True | Some ts \<Rightarrow> length ts = 0)
      then [''topics''] else [])"

text \<open>
  The README lookup of the gap check: the events, the list \<^verbatim>\<open>missing\<close>
  afterwards and \<^verbatim>\<open>hasReadme\<close>.  The handler adds \<^verbatim>\<open>README.md\<close> on status 404
  and does nothing else.
\<close>

definition checkReadme :: "env \<Rightarrow> string list \<Rightarrow> event list \<times> string list \<times> bool" where
  "checkReadme e missing =
     (case getReadme_check e of
        Inr readme \<Rightarrow> ([CallGetReadme], missing, True)
      | Inl err \<Rightarrow>
          ([CallGetReadme],
           if status err = Some 404 then missing @ [''README.md''] else missing,
           False))"

definition fieldChoices :: "string list \<Rightarrow> (string \<times> bool) list" where
  "fieldChoices missing =
     [(''description'', ''description'' \<in> set missing),
      (''website'', ''website'' \<in> set missing),
      (''topics'', ''topics'' \<in> set missing),
      (''readme'', ''README.md'' \<in> set missing)]"

text \<open>The checkbox prompt and the exit on an empty selection.\<close>

definition askFields :: "env \<Rightarrow> string list \<Rightarrow> string list io" where
  "askFields e missing =
     andThen ([PromptCheckbox (fieldChoices missing)], Value (checkbox_answer e))
       (\<lambda>fieldsToGenerate.
          if length fieldsToGenerate = 0 then
            andThen (say ''No fields selected. Exiting.'') (\<lambda>_. exit 0)
          else ret fieldsToGenerate)"

text \<open>The branch on \<^verbatim>\<open>missing.length === 0\<close>, then the checkbox.\<close>

definition chooseFields :: "env \<Rightarrow> string list \<Rightarrow> string list io" where
  "chooseFields e missing =
     andThen
       (if length missing = 0 then
          andThen (say ''This repository already has all metadata fields populated!'')
            (\<lambda>_. andThen
               ([PromptConfirm ''Would you like to regenerate any fields anyway?'' False],
                Value (confirm_regenerate e))
               (\<lambda>continueAnyway. if \<not> continueAnyway then exit 0 else ret ()))
        else say (''Missing fields: '' @ join '', '' missing))
       (\<lambda>_. askFields e missing)"

definition noData :: generatedData where
  "noData = \<lparr> gen_description = None, gen_website = None, gen_topics = None, gen_readme = None \<rparr>"

text \<open>
  The four generation blocks, in order; an exception of a generator leaves
  \<^verbatim>\<open>main\<close>.  The console line that prints a generated value is written as
  the name of the field in parentheses.
\<close>

definition generateFields :: "env \<Rightarrow> repoContext \<Rightarrow> string list \<Rightarrow> generatedData io" where
  "generateFields e repoContext fieldsToGenerate =
     andThen
       (if ''description'' \<in> set fieldsToGenerate then
          andThen (say ''Generating description...'')
            (\<lambda>_. andThen (generateDescription e repoContext)
               (\<lambda>d. andThen (say ''(description)'')
                  (\<lambda>_. ret (noData\<lparr> gen_description := Some d \<rparr>))))
        else ret noData)
       (\<lambda>g1. andThen
          (if ''website'' \<in> set fieldsToGenerate then
             andThen (say ''Generating website suggestion...'')
               (\<lambda>_. andThen (generateWebsite e repoContext)
                  (\<lambda>w. andThen (say ''(website)'')
                     (\<lambda>_. ret (g1\<lparr> gen_website := Some w \<rparr>))))
           else ret g1)
          (\<lambda>g2. andThen
             (if ''topics'' \<in> set fieldsToGenerate then
                andThen (say ''Generating topics...'')
                  (\<lambda>_. andThen (generateTopics e repoContext)
                     (\<lambda>ts. andThen (say ''(topics)'')
                        (\<lambda>_. ret (g2\<lparr> gen_topics := Some ts \<rparr>))))
              else ret g2)
             (\<lambda>g3.
                if ''readme'' \<in> set fieldsToGenerate then
                  andThen (say ''Generating README.md...'')
                    (\<lambda>_. andThen (generateReadme e repoContext)
                       (\<lambda>r. andThen (say ''README.md content generated'')
                          (\<lambda>_. ret (g3\<lparr> gen_readme := Some r \<rparr>))))
                else ret g3)))"

text \<open>
  The summary: the heading box, then the block of lines of each field that is
  truthy; the box and each block are one event.
\<close>

definition preview :: "generatedData \<Rightarrow> unit io" where
  "preview generatedData =
     (ConsoleLog ''Generated Metadata Summary'' #
      (if truthy (gen_description generatedData) then [ConsoleLog ''Description:''] else []) @
      (if truthy (gen_website generatedData) then [ConsoleLog ''Website:''] else []) @
      (if gen_topics generatedData \<noteq> None then [ConsoleLog ''Topics:''] else []) @
      (if truthy (gen_readme generatedData) then [ConsoleLog ''README.md:''] else []),
      Value ())"

definition confirmApply :: "env \<Rightarrow> unit io" where
  "confirmApply e =
     andThen ([PromptConfirm ''Apply these changes to the repository?'' True],
              Value (confirm_apply e))
       (\<lambda>applyChanges.
          if \<not> applyChanges then andThen (say ''Changes cancelled.'') (\<lambda>_. exit 0)
          else ret ())"

text \<open>
  Everything from the gap check to the confirmation before the apply step.
  \<^verbatim>\<open>hasReadme\<close> is assigned by the gap check and never read again.
\<close>

definition prepare :: "env \<Rightarrow> repository \<Rightarrow> generatedData io" where
  "prepare e selectedRepo =
     (let checked = checkReadme e (missingMetadata selectedRepo);
          missing = fst (snd checked)
      in andThen (fst checked, Value ())
           (\<lambda>_. andThen (chooseFields e missing)
              (\<lambda>fieldsToGenerate. andThen (say ''Analyzing repository content...'')
                 (\<lambda>_. andThen (getRepositoryContext e selectedRepo)
                    (\<lambda>repoContext. andThen (generateFields e repoContext fieldsToGenerate)
                       (\<lambda>generatedData. andThen (preview generatedData)
                          (\<lambda>_. andThen (confirmApply e)
                             (\<lambda>_. ret generatedData))))))))"

section \<open>Apply step\<close>

text \<open>The description and website block: one update call when either is truthy.\<close>

definition applyMetadata :: "env \<Rightarrow> generatedData \<Rightarrow> unit io" where
  "applyMetadata e generatedData =
     (if truthy (gen_description generatedData) \<or> truthy (gen_website generatedData) then
        andThen
          (call (CallUpdate
                   (if truthy (gen_description generatedData)
                    then gen_description generatedData else None)
                   (if truthy (gen_website generatedData)
                    then gen_website generatedData else None))
             (repos_update e))
          (\<lambda>_. say ''Updated repository description/website'')
      else ret ())"

text \<open>The topics block: an array, also an empty one, is truthy.\<close>

definition applyTopics :: "env \<Rightarrow> generatedData \<Rightarrow> unit io" where
  "applyTopics e generatedData =
     (case gen_topics generatedData of
        None \<Rightarrow> ret ()
      | Some names \<Rightarrow>
          andThen (call (CallReplaceAllTopics names) (replaceAllTopics e))
            (\<lambda>_. say ''Updated repository topics''))"

text \<open>
  The body of the inner \<^verbatim>\<open>try\<close>: the lookup whose every failure becomes
  \<^verbatim>\<open>{ data: null }\<close>, then the update call with the \<^verbatim>\<open>sha\<close> of the existing file
  or the create call without one.
\<close>

definition writeReadme :: "env \<Rightarrow> jsstring \<Rightarrow> unit io" where
  "writeReadme e readme =
     andThen
       (tryCatch (andThen (call CallGetReadme (getReadme_apply e)) (\<lambda>sha. ret (Some sha)))
          (\<lambda>err. ret None))
       (\<lambda>existingReadme.
          andThen
            (case existingReadme of
               Some sha \<Rightarrow>
                 call (CallCreateOrUpdateFileContents ''README.md''
                         ''Update README.md via metadata generator''
                         (toBase64 e readme) (Some sha))
                   (createOrUpdateFileContents e)
             | None \<Rightarrow>
                 call (CallCreateOrUpdateFileContents ''README.md''
                         ''Add README.md via metadata generator''
                         (toBase64 e readme) None)
                   (createOrUpdateFileContents e))
            (\<lambda>_. say ''Created/Updated README.md''))"

text \<open>The README block with its own handler.\<close>

definition applyReadme :: "env \<Rightarrow> generatedData \<Rightarrow> unit io" where
  "applyReadme e generatedData =
     (case gen_readme generatedData of
        None \<Rightarrow> ret ()
      | Some readme \<Rightarrow>
          if readme \<noteq> [] then
            tryCatch (writeReadme e readme)
              (\<lambda>err. sayError ''Error creating README: '' (message err))
          else ret ())"

text \<open>The apply step: the outer \<^verbatim>\<open>try\<close> with the three blocks and the closing banner.\<close>

definition applyChanges :: "env \<Rightarrow> generatedData \<Rightarrow> unit io" where
  "applyChanges e generatedData =
     andThen (say ''Applying changes...'')
       (\<lambda>_. tryCatch
          (andThen (applyMetadata e generatedData)
             (\<lambda>_. andThen (applyTopics e generatedData)
                (\<lambda>_. andThen (applyReadme e generatedData)
                   (\<lambda>_. say ''All changes applied successfully!''))))
          (\<lambda>err. andThen (sayError ''Error applying changes: '' (message err))
             (\<lambda>_. exit 1)))"

definition main :: "env \<Rightarrow> repository \<Rightarrow> unit io" where
  "main e selectedRepo = andThen (prepare e selectedRepo) (\<lambda>generatedData. applyChanges e generatedData)"

text \<open>
  The last statement of the file, \<^verbatim>\<open>main().catch(...)\<close>, and the status the
  process ends with: the argument of \<^verbatim>\<open>process.exit\<close>, or 0 when \<^verbatim>\<open>main\<close>
  returns and nothing is left to run.
\<close>

definition run :: "env \<Rightarrow> repository \<Rightarrow> unit io" where
  "run e selectedRepo =
     tryCatch (main e selectedRepo)
       (\<lambda>err. andThen (sayError ''Fatal error: '' (message err)) (\<lambda>_. exit 1))"

definition exitStatus :: "unit io \<Rightarrow> nat" where
  "exitStatus r = (case snd r of Value u \<Rightarrow> 0 | Thrown err \<Rightarrow> 1 | Exit n \<Rightarrow> n)"

text \<open>Fetches of repository content, requests to the text-generation service, writes to the hosting platform.\<close>

fun isContextCall :: "event \<Rightarrow> bool" where
  "isContextCall CallGetTree = True"
| "isContextCall (CallGetContent p) = True"
| "isContextCall ev = False"

fun isGenerationCall :: "event \<Rightarrow> bool" where
  "isGenerationCall (CallChat g n) = True"
| "isGenerationCall ev = False"

fun isWriteCall :: "event \<Rightarrow> bool" where
  "isWriteCall (CallUpdate d w) = True"
| "isWriteCall (CallReplaceAllTopics ts) = True"
| "isWriteCall (CallCreateOrUpdateFileContents p m c s) = True"
| "isWriteCall ev = False"

section \<open>Events of the generation step\<close>

text \<open>
  Names used to state what the generation step does for a list of ticked
  fields when every request to the service is answered: the events of the
  four blocks, the requests among them, and the \<^verbatim>\<open>generatedData\<close> object built
  from the answers (\<open>answers n\<close> is the content returned to the generator of
  field \<open>n\<close>).  \<open>fieldNames\<close> are the values of the four checkbox choices.
\<close>

definition generationEvents :: "string list \<Rightarrow> event list" where
  "generationEvents sel =
     (if ''description'' \<in> set sel then
        [ConsoleLog ''Generating description...'', CallChat ''description'' 100,
         ConsoleLog ''(description)'']
      else []) @
     (if ''website'' \<in> set sel then
        [ConsoleLog ''Generating website suggestion...'', CallChat ''website'' 100,
         ConsoleLog ''(website)'']
      else []) @
     (if ''topics'' \<in> set sel then
        [ConsoleLog ''Generating topics...'', CallChat ''topics'' 150, ConsoleLog ''(topics)'']
      else []) @
     (if ''readme'' \<in> set sel then
        [ConsoleLog ''Generating README.md...'', CallChat ''readme'' 2000,
         ConsoleLog ''README.md content generated'']
      else [])"

definition generationRequests :: "string list \<Rightarrow> event list" where
  "generationRequests sel =
     (if ''description'' \<in> set sel then [CallChat ''description'' 100] else []) @
     (if ''website'' \<in> set sel then [CallChat ''website'' 100] else []) @
     (if ''topics'' \<in> set sel then [CallChat ''topics'' 150] else []) @
     (if ''readme'' \<in> set sel then [CallChat ''readme'' 2000] else [])"

definition generatedFrom ::
  "(jsstring \<Rightarrow> jsstring) \<Rightarrow> (string \<Rightarrow> jsstring) \<Rightarrow> string list \<Rightarrow> generatedData" where
  "generatedFrom lower answers sel =
     \<lparr> gen_description =
         (if ''description'' \<in> set sel
          then Some (substring0 350 (trim (answers ''description''))) else None),
       gen_website =
         (if ''website'' \<in> set sel then Some (trim (answers ''website'')) else None),
       gen_topics =
         (if ''topics'' \<in> set sel
          then Some (parseTopics lower (trim (answers ''topics''))) else None),
       gen_readme =
         (if ''readme'' \<in> set sel then Some (trim (answers ''readme'')) else None) \<rparr>"

definition fieldNames :: "string list" where
  "fieldNames = [''description'', ''website'', ''topics'', ''readme'']"

section \<open>Events of the apply step\<close>

text \<open>
  Names for the events of the apply step, used to state its traces: the write
  request of the README block as decided by the lookup of the apply step,
  and the events of the metadata block and of the topics block when their
  call succeeds.
\<close>

definition writeCall :: "env \<Rightarrow> jsstring \<Rightarrow> event" where
  "writeCall e readme =
     (case getReadme_apply e of
        Inl err \<Rightarrow>
          CallCreateOrUpdateFileContents ''README.md'' ''Add README.md via metadata generator''
            (toBase64 e readme) None
      | Inr sha \<Rightarrow>
          CallCreateOrUpdateFileContents ''README.md'' ''Update README.md via metadata generator''
            (toBase64 e readme) (Some sha))"

definition metadataEvents :: "generatedData \<Rightarrow> event list" where
  "metadataEvents g =
     (if truthy (gen_description g) \<or> truthy (gen_website g) then
        [CallUpdate (if truthy (gen_description g) then gen_description g else None)
           (if truthy (gen_website g) then gen_website g else None),
         ConsoleLog ''Updated repository description/website'']
      else [])"

definition topicsEvents :: "generatedData \<Rightarrow> event list" where
  "topicsEvents g =
     (case gen_topics g of
        None \<Rightarrow> []
      | Some names \<Rightarrow> [CallReplaceAllTopics names, ConsoleLog ''Updated repository topics''])"

section \<open>Sample inputs\<close>

text \<open>
  A repository without description, homepage and topics, and an environment
  in which the README does not exist (status 404), the user selects all four
  fields and confirms, \<^verbatim>\<open>setup.py\<close> is an empty file, \<^verbatim>\<open>go.mod\<close> and
  \<^verbatim>\<open>pom.xml\<close> have content and every call succeeds.  Case mapping is the
  ASCII one and the base64 coding is left out (the identity).
\<close>

definition notFound :: error where
  "notFound = Error (Some 404) (js ''Not Found'')"

definition serverError :: error where
  "serverError = Error (Some 500) (js ''Server Error'')"

definition sampleRepo :: repository where
  "sampleRepo =
     \<lparr> repo_name = js ''demo'',
       repo_full_name = js ''octo/demo'',
       repo_owner_login = js ''octo'',
       repo_description = None,
       repo_homepage = None,
       repo_topics = None,
       repo_language = None,
       repo_private = False,
       repo_default_branch = js ''main'' \<rparr>"

definition sampleEnv :: env where
  "sampleEnv =
     \<lparr> toLowerCase = asciiLower,
       fromBase64 = (\<lambda>s. s),
       toBase64 = (\<lambda>s. s),
       jsonParse = (\<lambda>s. Inr (JObj [])),
       getReadme_check = Inl notFound,
       confirm_regenerate = False,
       checkbox_answer = [''description'', ''website'', ''topics'', ''readme''],
       getTree =
         Inr [\<lparr> item_type = js ''blob'', item_path = js ''index.js'' \<rparr>,
              \<lparr> item_type = js ''tree'', item_path = js ''src'' \<rparr>],
       getContent =
         (\<lambda>p. if p = ''setup.py'' then Inr (Some [])
              else if p = ''go.mod'' then Inr (Some (js ''module demo''))
              else if p = ''pom.xml'' then Inr (Some (js ''<project/>''))
              else Inl notFound),
       chat =
         (\<lambda>g. if g = ''topics'' then Inr (js ''Web App, react , Node.js!!, '')
              else Inr (js '' A demo project. '')),
       confirm_apply = True,
       repos_update = Inr (),
       replaceAllTopics = Inr (),
       getReadme_apply = Inl notFound,
       createOrUpdateFileContents = Inr () \<rparr>"

text \<open>What the generators produce in the sample environment.\<close>

definition sampleData :: generatedData where
  "sampleData =
     \<lparr> gen_description = Some (js ''A demo project.''),
       gen_website = Some (js ''A demo project.''),
       gen_topics = Some [js ''web-app'', js ''react'', js ''node.js!!''],
       gen_readme = Some (js ''A demo project.'') \<rparr>"

section \<open>String lemmas\<close>

lemma comma_not_space: "\<not> isWhiteSpace comma"
  by (simp add: isWhiteSpace_def comma_def)

lemma hyphen_not_space: "\<not> isWhiteSpace hyphen"
  by (simp add: isWhiteSpace_def hyphen_def)

lemma split_not_Nil: "split sep s \<noteq> []"
  by (induction s) (auto split: list.splits)

lemma trim_Cons_space: "isWhiteSpace c \<Longrightarrow> trim (c # s) = trim s"
  by (simp add: trim_def)

lemma trim_snoc_space: "isWhiteSpace c \<Longrightarrow> trim (s @ [c]) = trim s"
  by (simp add: trim_def dropWhile_append dropWhile_eq_Nil_conv [THEN iffD2])

lemma split_Cons_other:
  "c \<noteq> sep \<Longrightarrow> split sep (c # cs) = (c # hd (split sep cs)) # tl (split sep cs)"
  using split_not_Nil [of sep cs] by (cases "split sep cs") auto

lemma split_snoc_other:
  "c \<noteq> sep \<Longrightarrow> split sep (s @ [c]) = butlast (split sep s) @ [last (split sep s) @ [c]]"
proof (induction s)
  case Nil
  then show ?case by simp
next
  case (Cons a s)
  show ?case
  proof (cases "a = sep")
    case True
    with Cons split_not_Nil [of sep s] show ?thesis by simp
  next
    case False
    obtain p ps where ps: "split sep s = p # ps"
      using split_not_Nil [of sep s] by (cases "split sep s") auto
    with Cons False show ?thesis
      by (cases ps) auto
  qed
qed

lemma map_trim_split_dropWhile:
  "map trim (split comma (dropWhile isWhiteSpace s)) = map trim (split comma s)"
proof (induction s)
  case Nil
  then show ?case by simp
next
  case (Cons c s)
  show ?case
  proof (cases "isWhiteSpace c")
    case True
    then have ne: "c \<noteq> comma" using comma_not_space by auto
    have "map trim (split comma (c # s)) =
        trim (c # hd (split comma s)) # map trim (tl (split comma s))"
      by (simp only: split_Cons_other [OF ne] list.map)
    also have "\<dots> = map trim (split comma s)"
      using True split_not_Nil [of comma s]
      by (cases "split comma s") (auto simp: trim_Cons_space)
    finally show ?thesis using True Cons by simp
  next
    case False
    then show ?thesis by simp
  qed
qed

lemma map_trim_split_dropWhile_end:
  "map trim (split comma (rev (dropWhile isWhiteSpace (rev s)))) = map trim (split comma s)"
proof (induction s rule: rev_induct)
  case Nil
  then show ?case by simp
next
  case (snoc c s)
  show ?case
  proof (cases "isWhiteSpace c")
    case True
    then have ne: "c \<noteq> comma" using comma_not_space by auto
    have "map trim (split comma (s @ [c])) =
        map trim (butlast (split comma s)) @ [trim (last (split comma s) @ [c])]"
      by (simp only: split_snoc_other [OF ne] map_append list.map)
    also have "\<dots> = map trim (butlast (split comma s) @ [last (split comma s)])"
      using True by (simp add: trim_snoc_space)
    also have "\<dots> = map trim (split comma s)"
      using split_not_Nil [of comma s] by simp
    finally show ?thesis using True snoc by simp
  next
    case False
    then show ?thesis by simp
  qed
qed

lemma map_trim_split_trim: "map trim (split comma (trim s)) = map trim (split comma s)"
proof -
  have "map trim (split comma (trim s)) =
        map trim (split comma (rev (dropWhile isWhiteSpace (rev (dropWhile isWhiteSpace s)))))"
    by (simp only: trim_def [of s])
  also have "\<dots> = map trim (split comma (dropWhile isWhiteSpace s))"
    by (rule map_trim_split_dropWhile_end)
  also have "\<dots> = map trim (split comma s)"
    by (rule map_trim_split_dropWhile)
  finally show ?thesis .
qed

lemma replaceWhitespace_no_space: "c \<in> set (replaceWhitespace s) \<Longrightarrow> \<not> isWhiteSpace c"
  by (induction s rule: replaceWhitespace.induct) (auto simp: hyphen_not_space split: if_splits)

lemma replaceWhitespace_units: "set (replaceWhitespace s) \<subseteq> insert hyphen (set s)"
proof (induction s rule: replaceWhitespace.induct)
  case 1
  then show ?case by simp
next
  case (2 c cs)
  have "set (dropWhile isWhiteSpace cs) \<subseteq> set cs"
    by (auto dest: set_dropWhileD)
  with 2 show ?case by (auto split: if_splits)
qed

lemma replaceWhitespace_id: "\<forall>c\<in>set s. \<not> isWhiteSpace c \<Longrightarrow> replaceWhitespace s = s"
  by (induction s) auto

lemma parseTopics_trim: "parseTopics lower (trim text) = spec_topics lower text"
proof -
  have "map (normalizeTopic lower) (split comma (trim text)) =
        map (\<lambda>p. replaceWhitespace (lower p)) (map trim (split comma (trim text)))"
    by (simp add: normalizeTopic_def comp_def)
  also have "\<dots> = map (\<lambda>p. replaceWhitespace (lower p)) (map trim (split comma text))"
    by (simp only: map_trim_split_trim)
  also have "\<dots> = map (\<lambda>piece. replaceWhitespace (lower (trim piece))) (split comma text)"
    by (simp add: comp_def)
  finally show ?thesis
    by (simp add: parseTopics_def spec_topics_def validTopic_def [abs_def] not_less)
qed

lemma lowerUnit_idem: "lowerUnit (lowerUnit c) = lowerUnit c"
  unfolding lowerUnit_def by (auto simp: word_le_nat_alt unat_word_ariths)

lemma lowerUnit_hyphen: "lowerUnit hyphen = hyphen"
  by (simp add: lowerUnit_def hyphen_def)

lemma asciiLower_idem: "\<forall>s. asciiLower (asciiLower s) = asciiLower s"
  by (simp add: asciiLower_def lowerUnit_idem)

lemma asciiLower_fixed: "asciiLower s = s \<longleftrightarrow> (\<forall>c\<in>set s. lowerUnit c = c)"
  unfolding asciiLower_def by (induction s) auto

lemma asciiLower_hyphenate:
  "\<forall>s. asciiLower s = s \<longrightarrow> asciiLower (replaceWhitespace s) = replaceWhitespace s"
  using replaceWhitespace_units lowerUnit_hyphen by (fastforce simp: asciiLower_fixed)

lemma split_at_end: "xs = rev (dropWhile P (rev xs)) @ rev (takeWhile P (rev xs))"
  by (metis rev_append rev_rev_ident takeWhile_dropWhile_id)

lemma trim_decomposition:
  "\<exists>a b. s = a @ trim s @ b \<and> (\<forall>c\<in>set a. isWhiteSpace c) \<and> (\<forall>c\<in>set b. isWhiteSpace c)"
proof -
  let ?t = "dropWhile isWhiteSpace s"
  have 1: "s = takeWhile isWhiteSpace s @ ?t" by simp
  have 2: "?t = trim s @ rev (takeWhile isWhiteSpace (rev ?t))"
    unfolding trim_def by (rule split_at_end)
  have 3: "\<forall>c\<in>set (takeWhile isWhiteSpace s). isWhiteSpace c"
    by (auto dest: set_takeWhileD)
  have 4: "\<forall>c\<in>set (rev (takeWhile isWhiteSpace (rev ?t))). isWhiteSpace c"
    by (auto dest: set_takeWhileD)
  from 1 2 have "s = takeWhile isWhiteSpace s @ trim s @ rev (takeWhile isWhiteSpace (rev ?t))"
    by simp
  with 3 4 show ?thesis by blast
qed

lemma trim_last: "trim s \<noteq> [] \<Longrightarrow> \<not> isWhiteSpace (last (trim s))"
  by (simp add: trim_def last_rev hd_dropWhile)

lemma trim_hd: "trim s \<noteq> [] \<Longrightarrow> \<not> isWhiteSpace (hd (trim s))"
proof -
  assume ne: "trim s \<noteq> []"
  let ?t = "dropWhile isWhiteSpace s"
  have 2: "?t = trim s @ rev (takeWhile isWhiteSpace (rev ?t))"
    unfolding trim_def by (rule split_at_end)
  with ne have "hd ?t = hd (trim s)" by (metis hd_append2)
  moreover from 2 ne have "?t \<noteq> []" by (metis append_is_Nil_conv)
  ultimately show ?thesis using hd_dropWhile [of isWhiteSpace s] by simp
qed

lemma parseTopics_valid: "t \<in> set (parseTopics lower text) \<Longrightarrow> validTopic t"
  by (auto simp: parseTopics_def dest: in_set_takeD)

lemma parseTopics_image:
  "t \<in> set (parseTopics lower text) \<Longrightarrow> \<exists>p. t = replaceWhitespace (lower (trim p))"
  by (auto simp: parseTopics_def normalizeTopic_def dest!: in_set_takeD)

lemma sample_topics:
  "spec_topics asciiLower (js ''Web App, react , Node.js!!, '') =
     [js ''web-app'', js ''react'', js ''node.js!!'']"
  by (simp add: spec_topics_def js_def asciiLower_def lowerUnit_def trim_def comma_def
      isWhiteSpace_def hyphen_def)

section \<open>Field generators: the claims\<close>

text \<open>
  Claim C1.  Whenever the text-generation service returns a string, the list
  returned by \<open>generateTopics\<close> is the one the specification describes: the
  text split on commas, each piece trimmed, lowercased and with every run of
  white space replaced by one hyphen, the empty results and the results
  longer than 50 dropped, the first 10 survivors kept in order.  (The code
  trims the whole text before splitting; this changes nothing.)  No other
  step touches the pieces, so special characters stay.  The list has at most
  10 entries, and every entry is non-empty, at most 50 code units long and
  free of white space.  Every entry is lowercase, that is, a fixed point of
  \<^verbatim>\<open>toLowerCase\<close>, for a case mapping that is idempotent and under which a
  lowercase string stays lowercase when its white space is hyphenated.
\<close>

theorem generateTopics_postprocessing:
  assumes "chat e ''topics'' = Inr content"
  shows "\<exists>topics. snd (generateTopics e ctx) = Value topics
      \<and> topics = spec_topics (toLowerCase e) content
      \<and> length topics \<le> 10
      \<and> (\<forall>t\<in>set topics. t \<noteq> [] \<and> length t \<le> 50 \<and> (\<forall>c\<in>set t. \<not> isWhiteSpace c))
      \<and> ((\<forall>s. toLowerCase e (toLowerCase e s) = toLowerCase e s)
          \<and> (\<forall>s. toLowerCase e s = s \<longrightarrow>
                toLowerCase e (replaceWhitespace s) = replaceWhitespace s)
          \<longrightarrow> (\<forall>t\<in>set topics. toLowerCase e t = t))"
proof -
  let ?topics = "parseTopics (toLowerCase e) (trim content)"
  have run: "snd (generateTopics e ctx) = Value ?topics"
    using assms by (simp add: generateTopics_def)
  have eq: "?topics = spec_topics (toLowerCase e) content"
    by (rule parseTopics_trim)
  have len: "length ?topics \<le> 10"
    by (simp add: parseTopics_def)
  have shape: "\<forall>t\<in>set ?topics. t \<noteq> [] \<and> length t \<le> 50 \<and> (\<forall>c\<in>set t. \<not> isWhiteSpace c)"
  proof
    fix t assume t: "t \<in> set ?topics"
    from parseTopics_valid [OF t] have "t \<noteq> []" "length t \<le> 50"
      by (auto simp: validTopic_def)
    moreover from parseTopics_image [OF t] have "\<forall>c\<in>set t. \<not> isWhiteSpace c"
      by (auto dest: replaceWhitespace_no_space)
    ultimately show "t \<noteq> [] \<and> length t \<le> 50 \<and> (\<forall>c\<in>set t. \<not> isWhiteSpace c)"
      by simp
  qed
  have lower: "\<forall>t\<in>set ?topics. toLowerCase e t = t"
    if idem: "\<forall>s. toLowerCase e (toLowerCase e s) = toLowerCase e s"
    and keep: "\<forall>s. toLowerCase e s = s \<longrightarrow>
                toLowerCase e (replaceWhitespace s) = replaceWhitespace s"
  proof
    fix t assume "t \<in> set ?topics"
    then obtain p where p: "t = replaceWhitespace (toLowerCase e (trim p))"
      using parseTopics_image by blast
    have "toLowerCase e (toLowerCase e (trim p)) = toLowerCase e (trim p)"
      using idem by simp
    with keep show "toLowerCase e t = t"
      unfolding p by blast
  qed
  from run eq len shape lower show ?thesis
    by (metis (no_types, lifting))
qed

theorem generateTopics_postprocessing_witness:
  "chat sampleEnv ''topics'' = Inr (js ''Web App, react , Node.js!!, '')
   \<and> snd (generateTopics sampleEnv (seedContext sampleRepo)) =
       Value [js ''web-app'', js ''react'', js ''node.js!!'']
   \<and> toLowerCase sampleEnv (js ''node.js!!'') = js ''node.js!!''"
proof -
  have h: "chat sampleEnv ''topics'' = Inr (js ''Web App, react , Node.js!!, '')"
    by (simp add: sampleEnv_def)
  have lower: "toLowerCase sampleEnv = asciiLower"
    by (simp add: sampleEnv_def)
  from generateTopics_postprocessing [OF h, of "seedContext sampleRepo"]
  obtain topics where
    t1: "snd (generateTopics sampleEnv (seedContext sampleRepo)) = Value topics" and
    t2: "topics = spec_topics (toLowerCase sampleEnv) (js ''Web App, react , Node.js!!, '')" and
    t3: "(\<forall>s. toLowerCase sampleEnv (toLowerCase sampleEnv s) = toLowerCase sampleEnv s)
          \<and> (\<forall>s. toLowerCase sampleEnv s = s \<longrightarrow>
                toLowerCase sampleEnv (replaceWhitespace s) = replaceWhitespace s)
          \<longrightarrow> (\<forall>t\<in>set topics. toLowerCase sampleEnv t = t)"
    by blast
  have topics: "topics = [js ''web-app'', js ''react'', js ''node.js!!'']"
    using t2 lower sample_topics by simp
  have "\<forall>t\<in>set topics. toLowerCase sampleEnv t = t"
    using t3 asciiLower_idem asciiLower_hyphenate lower by simp
  with topics have "toLowerCase sampleEnv (js ''node.js!!'') = js ''node.js!!''"
    by simp
  with h t1 topics show ?thesis by simp
qed

text \<open>
  Claim C2.  Whenever the text-generation service returns a string,
  \<open>generateDescription\<close> makes one request and returns the first 350 code
  units of the trimmed string: the string without the white space at its two
  ends, which neither begins nor ends with white space.  The result is never
  longer than 350, whatever the length of the input.
\<close>

theorem generateDescription_truncated:
  assumes "chat e ''description'' = Inr content"
  shows "\<exists>d. generateDescription e ctx = ([CallChat ''description'' 100], Value d)
      \<and> d = take 350 (trim content)
      \<and> length d \<le> 350
      \<and> (\<exists>a b. content = a @ trim content @ b
            \<and> (\<forall>c\<in>set a. isWhiteSpace c) \<and> (\<forall>c\<in>set b. isWhiteSpace c))
      \<and> (trim content \<noteq> [] \<longrightarrow>
            \<not> isWhiteSpace (hd (trim content)) \<and> \<not> isWhiteSpace (last (trim content)))"
  using assms trim_decomposition [of content] trim_hd [of content] trim_last [of content]
  by (simp add: generateDescription_def substring0_def)

theorem generateDescription_truncated_witness:
  "chat sampleEnv ''description'' = Inr (js '' A demo project. '')
   \<and> generateDescription sampleEnv (seedContext sampleRepo) =
       ([CallChat ''description'' 100], Value (js ''A demo project.''))
   \<and> length (js ''A demo project.'') \<le> 350"
proof -
  have h: "chat sampleEnv ''description'' = Inr (js '' A demo project. '')"
    by (simp add: sampleEnv_def)
  have t: "take 350 (trim (js '' A demo project. '')) = js ''A demo project.''"
    by (simp add: trim_def js_def isWhiteSpace_def)
  from generateDescription_truncated [OF h, of "seedContext sampleRepo"] t h show ?thesis
    by (simp add: js_def)
qed

section \<open>Sequencing lemmas\<close>

lemma andThen_Value: "andThen (ev, Value x) f = (ev @ fst (f x), snd (f x))"
  by (simp add: andThen_def)

lemma andThen_say: "andThen (say t) f = (ConsoleLog t # fst (f ()), snd (f ()))"
  by (simp add: andThen_def say_def)

lemma andThen_sayError: "andThen (sayError t m) f = (ConsoleError t m # fst (f ()), snd (f ()))"
  by (simp add: andThen_def sayError_def)

lemma andThen_ret: "andThen (ret x) f = f x"
  by (simp add: andThen_def ret_def)

lemma andThen_call_ok: "andThen (call ev (Inr x)) f = (ev # fst (f x), snd (f x))"
  by (simp add: andThen_def call_def)

lemma andThen_call_fail: "andThen (call ev (Inl err)) f = ([ev], Thrown err)"
  by (simp add: andThen_def call_def)

lemma andThen_Thrown: "andThen (ev, Thrown err) f = (ev, Thrown err)"
  by (simp add: andThen_def)

lemma andThen_Exit: "andThen (ev, Exit n) f = (ev, Exit n)"
  by (simp add: andThen_def)

lemma tryCatch_Value: "tryCatch (ev, Value x) h = (ev, Value x)"
  by (simp add: tryCatch_def)

lemma tryCatch_Thrown: "tryCatch (ev, Thrown err) h = (ev @ fst (h err), snd (h err))"
  by (simp add: tryCatch_def)

lemma tryCatch_Exit: "tryCatch (ev, Exit n) h = (ev, Exit n)"
  by (simp add: tryCatch_def)

lemmas seq_simps = andThen_Value andThen_say andThen_sayError andThen_ret andThen_call_ok
  andThen_call_fail andThen_Thrown andThen_Exit tryCatch_Value tryCatch_Thrown tryCatch_Exit

lemma getRepositoryContext_Value: "\<exists>ctx. snd (getRepositoryContext e repo) = Value ctx"
  by (simp add: getRepositoryContext_def Let_def split: sum.split)

lemma probeConfig_found:
  "probeConfig e f = (if found e f then
       (case getContent e f of Inr (Some content) \<Rightarrow> Some (f, fromBase64 e content) | _ \<Rightarrow> None)
     else None)"
  by (simp add: probeConfig_def found_def split: sum.split option.split)

lemma probeConfig_None: "probeConfig e f = None \<longleftrightarrow> \<not> found e f"
  by (simp add: probeConfig_def found_def split: sum.split option.split)

lemma probeConfig_Some: "probeConfig e f = Some c \<Longrightarrow> found e f"
  using probeConfig_None [of e f] by auto

lemma scanConfigFiles_result:
  "snd (scanConfigFiles e fs) =
     (case find (found e) fs of None \<Rightarrow> None | Some f \<Rightarrow> probeConfig e f)"
proof (induction fs)
  case Nil
  then show ?case by simp
next
  case (Cons f fs)
  show ?case
  proof (cases "probeConfig e f")
    case None
    then have "\<not> found e f" using probeConfig_None by blast
    with None Cons show ?thesis by simp
  next
    case (Some config)
    then have "found e f" by (rule probeConfig_Some)
    with Some show ?thesis by simp
  qed
qed

lemma scanConfigFiles_events:
  "fst (scanConfigFiles e fs) =
     map CallGetContent
       (takeWhile (\<lambda>f. \<not> found e f) fs @
        (case find (found e) fs of None \<Rightarrow> [] | Some f \<Rightarrow> [f]))"
proof (induction fs)
  case Nil
  then show ?case by simp
next
  case (Cons f fs)
  show ?case
  proof (cases "probeConfig e f")
    case None
    then have "\<not> found e f" using probeConfig_None by blast
    with None Cons show ?thesis by simp
  next
    case (Some config)
    then have "found e f" by (rule probeConfig_Some)
    with Some show ?thesis by simp
  qed
qed

lemma sample_found:
  "find (found sampleEnv) configFiles = Some ''go.mod''"
  "takeWhile (\<lambda>f. \<not> found sampleEnv f) configFiles = [''Cargo.toml'', ''pyproject.toml'', ''setup.py'']"
  by (simp_all add: configFiles_def found_def sampleEnv_def notFound_def js_def)

section \<open>Context builder: the claims\<close>

text \<open>
  Claim C3.  \<open>getRepositoryContext\<close> never raises: for every repository and
  every environment it ends with a context record.  When the tree fetch
  throws, the only events are the fetch and the warning line, and the record
  is the seeded one: name, full name, description (the empty string when
  absent), language (\<^verbatim>\<open>Unknown\<close> when absent or empty), topics, privacy flag
  and default branch of the repository, with an empty file list, a
  \<^verbatim>\<open>null\<close> manifest and no config file.
\<close>

theorem getRepositoryContext_never_raises:
  "\<exists>ctx. snd (getRepositoryContext e repo) = Value ctx \<and>
     (\<forall>err. getTree e = Inl err \<longrightarrow>
        fst (getRepositoryContext e repo) =
          [CallGetTree, ConsoleLog ''Warning: Could not fetch full repository context''] \<and>
        ctx = \<lparr> ctx_name = repo_name repo,
                ctx_fullName = repo_full_name repo,
                ctx_description = (case repo_description repo of None \<Rightarrow> [] | Some d \<Rightarrow> d),
                ctx_language =
                  (case repo_language repo of
                     None \<Rightarrow> js ''Unknown''
                   | Some l \<Rightarrow> if l = [] then js ''Unknown'' else l),
                ctx_topics = (case repo_topics repo of None \<Rightarrow> [] | Some ts \<Rightarrow> ts),
                ctx_isPrivate = repo_private repo,
                ctx_defaultBranch = repo_default_branch repo,
                ctx_files = [],
                ctx_packageJson = JNull,
                ctx_configFile = None \<rparr>)"
  by (simp add: getRepositoryContext_def seedContext_def Let_def split: sum.split)

theorem getRepositoryContext_never_raises_witness:
  "getTree (sampleEnv\<lparr> getTree := Inl serverError \<rparr>) = Inl serverError \<and>
   getRepositoryContext (sampleEnv\<lparr> getTree := Inl serverError \<rparr>) sampleRepo =
     ([CallGetTree, ConsoleLog ''Warning: Could not fetch full repository context''],
      Value \<lparr> ctx_name = js ''demo'', ctx_fullName = js ''octo/demo'', ctx_description = [],
              ctx_language = js ''Unknown'', ctx_topics = [], ctx_isPrivate = False,
              ctx_defaultBranch = js ''main'', ctx_files = [], ctx_packageJson = JNull,
              ctx_configFile = None \<rparr>)"
proof -
  let ?e = "sampleEnv\<lparr> getTree := Inl serverError \<rparr>"
  have h: "getTree ?e = Inl serverError" by simp
  from getRepositoryContext_never_raises [of ?e sampleRepo] h
  obtain ctx where "snd (getRepositoryContext ?e sampleRepo) = Value ctx"
    and "fst (getRepositoryContext ?e sampleRepo) =
          [CallGetTree, ConsoleLog ''Warning: Could not fetch full repository context'']"
    and "ctx = \<lparr> ctx_name = js ''demo'', ctx_fullName = js ''octo/demo'', ctx_description = [],
              ctx_language = js ''Unknown'', ctx_topics = [], ctx_isPrivate = False,
              ctx_defaultBranch = js ''main'', ctx_files = [], ctx_packageJson = JNull,
              ctx_configFile = None \<rparr>"
    by (auto simp: sampleRepo_def)
  with h show ?thesis by (simp add: prod_eq_iff)
qed

text \<open>
  Claim C4.  After a successful tree fetch the context holds at most one
  config file (the field holds one optional value): none when no recognized
  name is found, otherwise the first name of
  \<open>configFiles\<close> that is found, with its decoded content; every name before it
  in the priority list is not found.  A name is found when its fetch returns a non-empty
  content.  The scan stops there: the names fetched are exactly those up to
  and including the first one found.  The manifest depends on the answer
  for \<^verbatim>\<open>package.json\<close> alone and the config file on the answers for the
  recognized names alone, so each is attached or omitted independently of
  the other.
\<close>

theorem config_file_priority:
  assumes "getTree e = Inr tree"
  shows "\<exists>ctx. snd (getRepositoryContext e repo) = Value ctx
     \<and> (case find (found e) configFiles of
          None \<Rightarrow> ctx_configFile ctx = None
        | Some f \<Rightarrow>
            \<exists>content. getContent e f = Inr (Some content) \<and> content \<noteq> [] \<and>
              ctx_configFile ctx = Some (f, fromBase64 e content))
     \<and> (\<forall>f body. ctx_configFile ctx = Some (f, body) \<longrightarrow>
          (\<exists>i<length configFiles. configFiles ! i = f \<and> found e f \<and>
             (\<forall>j<i. \<not> found e (configFiles ! j))))
     \<and> fst (getRepositoryContext e repo) =
          CallGetTree # CallGetContent ''package.json'' #
          map CallGetContent
            (takeWhile (\<lambda>f. \<not> found e f) configFiles @
             (case find (found e) configFiles of None \<Rightarrow> [] | Some f \<Rightarrow> [f]))
     \<and> ctx_packageJson ctx =
          (case getContent e ''package.json'' of
             Inl err \<Rightarrow> JNull
           | Inr None \<Rightarrow> JNull
           | Inr (Some content) \<Rightarrow>
               if content \<noteq> [] then
                 (case jsonParse e (fromBase64 e content) of
                    Inl err \<Rightarrow> JNull
                  | Inr parsed \<Rightarrow> parsed)
               else JNull)"
proof -
  let ?ctx = "(seedContext repo)\<lparr>
      ctx_files := take 100 (map item_path (filter (\<lambda>item. item_type item = js ''blob'') tree)),
      ctx_packageJson := snd (fetchPackageJson e JNull),
      ctx_configFile := snd (scanConfigFiles e configFiles) \<rparr>"
  have run: "snd (getRepositoryContext e repo) = Value ?ctx"
    using assms by (simp add: getRepositoryContext_def Let_def seedContext_def)
  have cfg: "ctx_configFile ?ctx =
      (case find (found e) configFiles of None \<Rightarrow> None | Some f \<Rightarrow> probeConfig e f)"
    by (simp add: scanConfigFiles_result)
  have first: "case find (found e) configFiles of
          None \<Rightarrow> ctx_configFile ?ctx = None
        | Some f \<Rightarrow>
            \<exists>content. getContent e f = Inr (Some content) \<and> content \<noteq> [] \<and>
              ctx_configFile ?ctx = Some (f, fromBase64 e content)"
  proof (cases "find (found e) configFiles")
    case None
    then show ?thesis using cfg by simp
  next
    case (Some f)
    then have "found e f" by (auto simp: find_Some_iff)
    then obtain content where "getContent e f = Inr (Some content)" "content \<noteq> []"
      by (auto simp: found_def split: sum.splits option.splits)
    then show ?thesis using cfg Some by (simp add: probeConfig_def)
  qed
  have earliest: "\<forall>f body. ctx_configFile ?ctx = Some (f, body) \<longrightarrow>
          (\<exists>i<length configFiles. configFiles ! i = f \<and> found e f \<and>
             (\<forall>j<i. \<not> found e (configFiles ! j)))"
  proof (intro allI impI)
    fix f body assume a: "ctx_configFile ?ctx = Some (f, body)"
    then obtain f' where f': "find (found e) configFiles = Some f'"
      and p: "probeConfig e f' = Some (f, body)"
      using cfg by (auto split: option.splits)
    from p have "f' = f"
      by (auto simp: probeConfig_def split: sum.splits option.splits if_splits)
    with f' show "\<exists>i<length configFiles. configFiles ! i = f \<and> found e f \<and>
             (\<forall>j<i. \<not> found e (configFiles ! j))"
      by (auto simp: find_Some_iff)
  qed
  have events: "fst (getRepositoryContext e repo) =
          CallGetTree # CallGetContent ''package.json'' #
          map CallGetContent
            (takeWhile (\<lambda>f. \<not> found e f) configFiles @
             (case find (found e) configFiles of None \<Rightarrow> [] | Some f \<Rightarrow> [f]))"
    using assms
    by (simp add: getRepositoryContext_def Let_def scanConfigFiles_events fetchPackageJson_def)
  have manifest: "ctx_packageJson ?ctx =
          (case getContent e ''package.json'' of
             Inl err \<Rightarrow> JNull
           | Inr None \<Rightarrow> JNull
           | Inr (Some content) \<Rightarrow>
               if content \<noteq> [] then
                 (case jsonParse e (fromBase64 e content) of
                    Inl err \<Rightarrow> JNull
                  | Inr parsed \<Rightarrow> parsed)
               else JNull)"
    by (simp add: fetchPackageJson_def)
  from run first earliest events manifest show ?thesis
    by blast
qed

theorem config_file_priority_witness:
  "getTree sampleEnv =
     Inr [\<lparr> item_type = js ''blob'', item_path = js ''index.js'' \<rparr>,
          \<lparr> item_type = js ''tree'', item_path = js ''src'' \<rparr>]
   \<and> fst (getRepositoryContext sampleEnv sampleRepo) =
       [CallGetTree, CallGetContent ''package.json'', CallGetContent ''Cargo.toml'',
        CallGetContent ''pyproject.toml'', CallGetContent ''setup.py'', CallGetContent ''go.mod'']
   \<and> (\<exists>ctx. snd (getRepositoryContext sampleEnv sampleRepo) = Value ctx
         \<and> ctx_configFile ctx = Some (''go.mod'', js ''module demo'')
         \<and> ctx_packageJson ctx = JNull)"
proof -
  have h: "getTree sampleEnv =
     Inr [\<lparr> item_type = js ''blob'', item_path = js ''index.js'' \<rparr>,
          \<lparr> item_type = js ''tree'', item_path = js ''src'' \<rparr>]"
    by (simp add: sampleEnv_def)
  have c: "getContent sampleEnv ''go.mod'' = Inr (Some (js ''module demo''))"
    "getContent sampleEnv ''package.json'' = Inl notFound"
    "fromBase64 sampleEnv = (\<lambda>s. s)"
    by (simp_all add: sampleEnv_def)
  from config_file_priority [OF h, of sampleRepo] h c show ?thesis
    by (auto simp: sample_found)
qed

section \<open>Gap detector: the claim\<close>

text \<open>
  Claim C5.  The gap check makes one README lookup and prints nothing.  The
  list \<^verbatim>\<open>missing\<close> contains \<^verbatim>\<open>description\<close> exactly when the description is
  absent or empty after trimming, \<^verbatim>\<open>website\<close> exactly when the homepage is
  absent or empty after trimming, \<^verbatim>\<open>topics\<close> exactly when the topics are
  absent or the empty list, and \<^verbatim>\<open>README.md\<close> exactly when the lookup throws
  an error with status 404; it contains nothing else.  Any other error of the
  lookup is swallowed: the list stays as the three tests left it.
\<close>

theorem gap_detector:
  "\<exists>missing hasReadme.
     checkReadme e (missingMetadata repo) = ([CallGetReadme], missing, hasReadme)
     \<and> (''description'' \<in> set missing \<longleftrightarrow>
          repo_description repo = None \<or> (\<exists>d. repo_description repo = Some d \<and> trim d = []))
     \<and> (''website'' \<in> set missing \<longleftrightarrow>
          repo_homepage repo = None \<or> (\<exists>h. repo_homepage repo = Some h \<and> trim h = []))
     \<and> (''topics'' \<in> set missing \<longleftrightarrow> repo_topics repo = None \<or> repo_topics repo = Some [])
     \<and> (''README.md'' \<in> set missing \<longleftrightarrow>
          (\<exists>err. getReadme_check e = Inl err \<and> status err = Some 404))
     \<and> set missing \<subseteq> {''description'', ''website'', ''topics'', ''README.md''}
     \<and> (\<forall>err. getReadme_check e = Inl err \<and> status err \<noteq> Some 404 \<longrightarrow>
          missing = missingMetadata repo \<and> \<not> hasReadme)
     \<and> (\<forall>sha. getReadme_check e = Inr sha \<longrightarrow> missing = missingMetadata repo \<and> hasReadme)"
proof -
  have blank: "blank x \<longleftrightarrow> x = None \<or> (\<exists>s. x = Some s \<and> trim s = [])" for x
    by (cases x) (auto simp: blank_def trim_def)
  have d: "''description'' \<in> set (missingMetadata repo) \<longleftrightarrow> blank (repo_description repo)"
    and w: "''website'' \<in> set (missingMetadata repo) \<longleftrightarrow> blank (repo_homepage repo)"
    and t: "''topics'' \<in> set (missingMetadata repo) \<longleftrightarrow>
              repo_topics repo = None \<or> repo_topics repo = Some []"
    and r: "''README.md'' \<notin> set (missingMetadata repo)"
    and sub: "set (missingMetadata repo) \<subseteq> {''description'', ''website'', ''topics''}"
    by (auto simp: missingMetadata_def split: option.splits if_splits)
  show ?thesis
  proof (cases "getReadme_check e")
    case (Inl err)
    show ?thesis
    proof (cases "status err = Some 404")
      case True
      with Inl d w t r sub show ?thesis
        by (auto simp: checkReadme_def blank)
    next
      case False
      with Inl d w t r sub show ?thesis
        by (auto simp: checkReadme_def blank)
    qed
  next
    case (Inr sha)
    with d w t r sub show ?thesis
      by (auto simp: checkReadme_def blank)
  qed
qed

theorem gap_detector_witness:
  "checkReadme sampleEnv (missingMetadata sampleRepo) =
     ([CallGetReadme], [''description'', ''website'', ''topics'', ''README.md''], False)
   \<and> repo_description sampleRepo = None \<and> repo_homepage sampleRepo = None
   \<and> repo_topics sampleRepo = None \<and> getReadme_check sampleEnv = Inl notFound
   \<and> status notFound = Some 404"
proof -
  have "checkReadme sampleEnv (missingMetadata sampleRepo) =
     ([CallGetReadme], [''description'', ''website'', ''topics'', ''README.md''], False)"
    using gap_detector [of sampleEnv sampleRepo]
    by (simp add: checkReadme_def missingMetadata_def blank_def sampleEnv_def sampleRepo_def
        notFound_def)
  then show ?thesis
    by (simp add: sampleEnv_def sampleRepo_def notFound_def)
qed

section \<open>Apply step: lemmas\<close>

lemma lookup_existing:
  "tryCatch (andThen (call CallGetReadme (getReadme_apply e)) (\<lambda>sha. ret (Some sha)))
       (\<lambda>err. ret None) =
     ([CallGetReadme], Value (case getReadme_apply e of Inl err \<Rightarrow> None | Inr sha \<Rightarrow> Some sha))"
  by (cases "getReadme_apply e") (simp_all add: call_def andThen_def tryCatch_def ret_def)

lemma writeReadme_eq:
  "writeReadme e readme =
     (case createOrUpdateFileContents e of
        Inl err \<Rightarrow> ([CallGetReadme, writeCall e readme], Thrown err)
      | Inr u \<Rightarrow>
          ([CallGetReadme, writeCall e readme, ConsoleLog ''Created/Updated README.md''],
           Value ()))"
  unfolding writeReadme_def lookup_existing
  by (cases "getReadme_apply e"; cases "createOrUpdateFileContents e")
     (simp_all add: seq_simps writeCall_def say_def)

lemma applyReadme_eq:
  "gen_readme g = Some readme \<Longrightarrow> readme \<noteq> [] \<Longrightarrow>
   applyReadme e g =
     (case createOrUpdateFileContents e of
        Inl err \<Rightarrow>
          ([CallGetReadme, writeCall e readme,
            ConsoleError ''Error creating README: '' (message err)], Value ())
      | Inr u \<Rightarrow>
          ([CallGetReadme, writeCall e readme, ConsoleLog ''Created/Updated README.md''],
           Value ()))"
  by (cases "createOrUpdateFileContents e")
     (simp_all add: applyReadme_def writeReadme_eq seq_simps sayError_def)

lemma applyMetadata_ok:
  "truthy (gen_description g) \<or> truthy (gen_website g) \<longrightarrow> repos_update e = Inr () \<Longrightarrow>
   applyMetadata e g = (metadataEvents g, Value ())"
  by (auto simp: applyMetadata_def metadataEvents_def seq_simps say_def ret_def)

lemma applyMetadata_fail:
  "truthy (gen_description g) \<or> truthy (gen_website g) \<Longrightarrow> repos_update e = Inl err \<Longrightarrow>
   applyMetadata e g =
     ([CallUpdate (if truthy (gen_description g) then gen_description g else None)
         (if truthy (gen_website g) then gen_website g else None)], Thrown err)"
  by (auto simp: applyMetadata_def seq_simps)

lemma applyTopics_ok:
  "gen_topics g \<noteq> None \<longrightarrow> replaceAllTopics e = Inr () \<Longrightarrow>
   applyTopics e g = (topicsEvents g, Value ())"
  by (auto simp: applyTopics_def topicsEvents_def seq_simps say_def ret_def split: option.split)

lemma applyTopics_fail:
  "gen_topics g = Some names \<Longrightarrow> replaceAllTopics e = Inl err \<Longrightarrow>
   applyTopics e g = ([CallReplaceAllTopics names], Thrown err)"
  by (simp add: applyTopics_def seq_simps)

lemma applyChanges_readme_failure:
  assumes "gen_readme g = Some readme" and "readme \<noteq> []"
    and "truthy (gen_description g) \<or> truthy (gen_website g) \<longrightarrow> repos_update e = Inr ()"
    and "gen_topics g \<noteq> None \<longrightarrow> replaceAllTopics e = Inr ()"
    and "createOrUpdateFileContents e = Inl err"
  shows "applyChanges e g =
     (ConsoleLog ''Applying changes...'' # metadataEvents g @ topicsEvents g @
        [CallGetReadme, writeCall e readme,
         ConsoleError ''Error creating README: '' (message err),
         ConsoleLog ''All changes applied successfully!''],
      Value ())"
  using assms(5)
  by (simp add: applyChanges_def applyMetadata_ok [OF assms(3)] applyTopics_ok [OF assms(4)]
      applyReadme_eq [OF assms(1,2)] seq_simps say_def)

lemma applyChanges_update_failure:
  assumes "truthy (gen_description g) \<or> truthy (gen_website g)" and "repos_update e = Inl err"
  shows "applyChanges e g =
     ([ConsoleLog ''Applying changes...'',
       CallUpdate (if truthy (gen_description g) then gen_description g else None)
         (if truthy (gen_website g) then gen_website g else None),
       ConsoleError ''Error applying changes: '' (message err)],
      Exit 1)"
  by (simp add: applyChanges_def applyMetadata_fail [OF assms] seq_simps exit_def)

lemma applyChanges_topics_failure:
  assumes "truthy (gen_description g) \<or> truthy (gen_website g) \<longrightarrow> repos_update e = Inr ()"
    and "gen_topics g = Some names" and "replaceAllTopics e = Inl err"
  shows "applyChanges e g =
     (ConsoleLog ''Applying changes...'' # metadataEvents g @
        [CallReplaceAllTopics names, ConsoleError ''Error applying changes: '' (message err)],
      Exit 1)"
  by (simp add: applyChanges_def applyMetadata_ok [OF assms(1)] applyTopics_fail [OF assms(2,3)]
      seq_simps exit_def)

lemma sampleData_truthy:
  "truthy (gen_description sampleData)" "truthy (gen_website sampleData)"
  "gen_topics sampleData = Some [js ''web-app'', js ''react'', js ''node.js!!'']"
  "gen_readme sampleData = Some (js ''A demo project.'')" "js ''A demo project.'' \<noteq> []"
  by (simp_all add: sampleData_def truthy_def js_def)

section \<open>Field selection: lemmas\<close>

lemma askFields_eq:
  "askFields e missing =
     (if checkbox_answer e = [] then
        ([PromptCheckbox (fieldChoices missing), ConsoleLog ''No fields selected. Exiting.''],
         Exit 0)
      else ([PromptCheckbox (fieldChoices missing)], Value (checkbox_answer e)))"
  by (simp add: askFields_def seq_simps exit_def ret_def)

lemma chooseFields_eq:
  "chooseFields e missing =
     (if missing = [] then
        (if confirm_regenerate e then
           (ConsoleLog ''This repository already has all metadata fields populated!'' #
            PromptConfirm ''Would you like to regenerate any fields anyway?'' False #
            fst (askFields e missing),
            snd (askFields e missing))
         else
           ([ConsoleLog ''This repository already has all metadata fields populated!'',
             PromptConfirm ''Would you like to regenerate any fields anyway?'' False],
            Exit 0))
      else
        (ConsoleLog (''Missing fields: '' @ join '', '' missing) # fst (askFields e missing),
         snd (askFields e missing)))"
  by (simp add: chooseFields_def seq_simps exit_def ret_def)

lemma prepare_no_fields:
  assumes "checkbox_answer e = []"
  shows "prepare e repo =
     (CallGetReadme # fst (chooseFields e (fst (snd (checkReadme e (missingMetadata repo))))),
      Exit 0)"
proof -
  have c: "fst (checkReadme e m) = [CallGetReadme]" for m
    by (simp add: checkReadme_def split: sum.split)
  have "snd (chooseFields e m) = Exit 0" for m
    using assms by (simp add: chooseFields_eq askFields_eq)
  then show ?thesis
    by (simp add: prepare_def Let_def andThen_def c)
qed

lemma chooseFields_quiet:
  "ev \<in> set (fst (chooseFields e missing)) \<Longrightarrow>
     \<not> isContextCall ev \<and> \<not> isGenerationCall ev \<and> \<not> isWriteCall ev"
  by (auto simp: chooseFields_eq askFields_eq split: if_splits)

section \<open>Apply step: the claims\<close>



text \<open>
  Claim C7.  If the write of the README throws after the metadata and
  topics blocks went through, the apply step prints the error of that field,
  then the closing banner, and ends normally; the update and topics calls
  made before stay as they are and nothing is undone.  If the update call of
  description and website throws, the apply step prints the error and exits
  with status 1: the topics call, the README lookup and the README write are
  never made.  If the topics call throws, the apply step prints the error and
  exits with status 1: the README lookup and write are never made, and the
  update call made before is not undone.
\<close>

theorem apply_step_failures:
  "(\<forall>readme err.
      gen_readme g = Some readme \<and> readme \<noteq> [] \<and>
      (truthy (gen_description g) \<or> truthy (gen_website g) \<longrightarrow> repos_update e = Inr ()) \<and>
      (gen_topics g \<noteq> None \<longrightarrow> replaceAllTopics e = Inr ()) \<and>
      createOrUpdateFileContents e = Inl err \<longrightarrow>
      applyChanges e g =
        (ConsoleLog ''Applying changes...'' # metadataEvents g @ topicsEvents g @
           [CallGetReadme, writeCall e readme,
            ConsoleError ''Error creating README: '' (message err),
            ConsoleLog ''All changes applied successfully!''],
         Value ()))
   \<and> (\<forall>err.
      (truthy (gen_description g) \<or> truthy (gen_website g)) \<and> repos_update e = Inl err \<longrightarrow>
      applyChanges e g =
        ([ConsoleLog ''Applying changes...'',
          CallUpdate (if truthy (gen_description g) then gen_description g else None)
            (if truthy (gen_website g) then gen_website g else None),
          ConsoleError ''Error applying changes: '' (message err)],
         Exit 1))
   \<and> (\<forall>names err.
      (truthy (gen_description g) \<or> truthy (gen_website g) \<longrightarrow> repos_update e = Inr ()) \<and>
      gen_topics g = Some names \<and> replaceAllTopics e = Inl err \<longrightarrow>
      applyChanges e g =
        (ConsoleLog ''Applying changes...'' # metadataEvents g @
           [CallReplaceAllTopics names,
            ConsoleError ''Error applying changes: '' (message err)],
         Exit 1))"
  using applyChanges_readme_failure applyChanges_update_failure applyChanges_topics_failure
  by blast

theorem apply_step_failures_witness:
  "applyChanges (sampleEnv\<lparr> createOrUpdateFileContents := Inl serverError \<rparr>) sampleData =
     ([ConsoleLog ''Applying changes...'',
       CallUpdate (Some (js ''A demo project.'')) (Some (js ''A demo project.'')),
       ConsoleLog ''Updated repository description/website'',
       CallReplaceAllTopics [js ''web-app'', js ''react'', js ''node.js!!''],
       ConsoleLog ''Updated repository topics'',
       CallGetReadme,
       CallCreateOrUpdateFileContents ''README.md'' ''Add README.md via metadata generator''
         (js ''A demo project.'') None,
       ConsoleError ''Error creating README: '' (js ''Server Error''),
       ConsoleLog ''All changes applied successfully!''],
      Value ())
   \<and> applyChanges (sampleEnv\<lparr> repos_update := Inl serverError \<rparr>) sampleData =
     ([ConsoleLog ''Applying changes...'',
       CallUpdate (Some (js ''A demo project.'')) (Some (js ''A demo project.'')),
       ConsoleError ''Error applying changes: '' (js ''Server Error'')],
      Exit 1)
   \<and> applyChanges (sampleEnv\<lparr> replaceAllTopics := Inl serverError \<rparr>) sampleData =
     ([ConsoleLog ''Applying changes...'',
       CallUpdate (Some (js ''A demo project.'')) (Some (js ''A demo project.'')),
       ConsoleLog ''Updated repository description/website'',
       CallReplaceAllTopics [js ''web-app'', js ''react'', js ''node.js!!''],
       ConsoleError ''Error applying changes: '' (js ''Server Error'')],
      Exit 1)"
proof -
  let ?e1 = "sampleEnv\<lparr> createOrUpdateFileContents := Inl serverError \<rparr>"
  let ?e2 = "sampleEnv\<lparr> repos_update := Inl serverError \<rparr>"
  let ?e3 = "sampleEnv\<lparr> replaceAllTopics := Inl serverError \<rparr>"
  have env:
    "repos_update ?e1 = Inr ()" "replaceAllTopics ?e1 = Inr ()"
    "createOrUpdateFileContents ?e1 = Inl serverError"
    "repos_update ?e2 = Inl serverError"
    "repos_update ?e3 = Inr ()" "replaceAllTopics ?e3 = Inl serverError"
    by (simp_all add: sampleEnv_def)
  have w: "writeCall ?e1 (js ''A demo project.'') =
      CallCreateOrUpdateFileContents ''README.md'' ''Add README.md via metadata generator''
         (js ''A demo project.'') None"
    by (simp add: writeCall_def sampleEnv_def)
  have ev: "metadataEvents sampleData =
       [CallUpdate (Some (js ''A demo project.'')) (Some (js ''A demo project.'')),
        ConsoleLog ''Updated repository description/website'']"
     "topicsEvents sampleData =
       [CallReplaceAllTopics [js ''web-app'', js ''react'', js ''node.js!!''],
        ConsoleLog ''Updated repository topics'']"
    using sampleData_truthy(1,2)
    by (simp_all add: metadataEvents_def topicsEvents_def) (simp_all add: sampleData_def)
  have d: "gen_description sampleData = Some (js ''A demo project.'')"
    "gen_website sampleData = Some (js ''A demo project.'')"
    by (simp_all add: sampleData_def)
  have m: "message serverError = js ''Server Error''"
    by (simp add: serverError_def)
  from apply_step_failures [of sampleData ?e1] sampleData_truthy env
  have 1: "applyChanges ?e1 sampleData =
        (ConsoleLog ''Applying changes...'' # metadataEvents sampleData @ topicsEvents sampleData @
           [CallGetReadme, writeCall ?e1 (js ''A demo project.''),
            ConsoleError ''Error creating README: '' (message serverError),
            ConsoleLog ''All changes applied successfully!''],
         Value ())"
    by blast
  from apply_step_failures [of sampleData ?e2] sampleData_truthy env
  have 2: "applyChanges ?e2 sampleData =
        ([ConsoleLog ''Applying changes...'',
          CallUpdate (if truthy (gen_description sampleData) then gen_description sampleData else None)
            (if truthy (gen_website sampleData) then gen_website sampleData else None),
          ConsoleError ''Error applying changes: '' (message serverError)],
         Exit 1)"
    by blast
  from apply_step_failures [of sampleData ?e3] sampleData_truthy env
  have 3: "applyChanges ?e3 sampleData =
        (ConsoleLog ''Applying changes...'' # metadataEvents sampleData @
           [CallReplaceAllTopics [js ''web-app'', js ''react'', js ''node.js!!''],
            ConsoleError ''Error applying changes: '' (message serverError)],
         Exit 1)"
    by blast
  note r1 = 1 [unfolded w ev m]
  note r2 = 2 [unfolded m, simplified sampleData_truthy(1,2), unfolded d]
  note r3 = 3 [unfolded ev m]
  from r1 r2 r3 show ?thesis
    by simp
qed

section \<open>Generation step: lemmas\<close>

lemma generators_answered:
  "chat e ''description'' = Inr c \<Longrightarrow>
     generateDescription e ctx = ([CallChat ''description'' 100], Value (substring0 350 (trim c)))"
  "chat e ''website'' = Inr c \<Longrightarrow>
     generateWebsite e ctx = ([CallChat ''website'' 100], Value (trim c))"
  "chat e ''topics'' = Inr c \<Longrightarrow>
     generateTopics e ctx =
       ([CallChat ''topics'' 150], Value (parseTopics (toLowerCase e) (trim c)))"
  "chat e ''readme'' = Inr c \<Longrightarrow>
     generateReadme e ctx = ([CallChat ''readme'' 2000], Value (trim c))"
  by (simp_all add: generateDescription_def generateWebsite_def generateTopics_def
      generateReadme_def)

lemma generateFields_answered:
  assumes "\<forall>n\<in>set sel. n \<in> set fieldNames \<longrightarrow> chat e n = Inr (answers n)"
  shows "generateFields e ctx sel =
     (generationEvents sel, Value (generatedFrom (toLowerCase e) answers sel))"
proof -
  have d: "''description'' \<in> set sel \<Longrightarrow> chat e ''description'' = Inr (answers ''description'')"
    and w: "''website'' \<in> set sel \<Longrightarrow> chat e ''website'' = Inr (answers ''website'')"
    and t: "''topics'' \<in> set sel \<Longrightarrow> chat e ''topics'' = Inr (answers ''topics'')"
    and r: "''readme'' \<in> set sel \<Longrightarrow> chat e ''readme'' = Inr (answers ''readme'')"
    using assms by (simp_all add: fieldNames_def)
  show ?thesis
    unfolding generateFields_def generationEvents_def generatedFrom_def
    by (cases "''description'' \<in> set sel"; cases "''website'' \<in> set sel";
        cases "''topics'' \<in> set sel"; cases "''readme'' \<in> set sel")
       (simp_all add: generators_answered d w t r seq_simps ret_def noData_def)
qed

lemma andThen_returned: "snd m = Value x \<Longrightarrow> andThen m f = (fst m @ fst (f x), snd (f x))"
  by (simp add: andThen_def)

lemma checkReadme_events: "fst (checkReadme e m) = [CallGetReadme]"
  by (simp add: checkReadme_def split: sum.split)

lemma confirmApply_eq:
  "confirmApply e =
     (if confirm_apply e then ([PromptConfirm ''Apply these changes to the repository?'' True], Value ())
      else ([PromptConfirm ''Apply these changes to the repository?'' True,
             ConsoleLog ''Changes cancelled.''], Exit 0))"
  by (simp add: confirmApply_def seq_simps exit_def ret_def)

lemma chooseFields_returned:
  "missing \<noteq> [] \<or> confirm_regenerate e \<Longrightarrow> checkbox_answer e \<noteq> [] \<Longrightarrow>
   snd (chooseFields e missing) = Value (checkbox_answer e)"
  by (auto simp: chooseFields_eq askFields_eq)

lemma prepare_answered:
  assumes shown: "fst (snd (checkReadme e (missingMetadata repo))) \<noteq> [] \<or> confirm_regenerate e"
    and ticked: "checkbox_answer e \<noteq> []"
    and answered: "\<forall>n\<in>set (checkbox_answer e). n \<in> set fieldNames \<longrightarrow> chat e n = Inr (answers n)"
  shows "prepare e repo =
     (CallGetReadme # fst (chooseFields e (fst (snd (checkReadme e (missingMetadata repo))))) @
      ConsoleLog ''Analyzing repository content...'' # fst (getRepositoryContext e repo) @
      generationEvents (checkbox_answer e) @
      fst (preview (generatedFrom (toLowerCase e) answers (checkbox_answer e))) @
      fst (confirmApply e),
      if confirm_apply e
      then Value (generatedFrom (toLowerCase e) answers (checkbox_answer e)) else Exit 0)"
proof -
  let ?missing = "fst (snd (checkReadme e (missingMetadata repo)))"
  let ?g = "generatedFrom (toLowerCase e) answers (checkbox_answer e)"
  obtain ctx where ctx: "snd (getRepositoryContext e repo) = Value ctx"
    using getRepositoryContext_Value by blast
  have gen: "generateFields e ctx (checkbox_answer e) = (generationEvents (checkbox_answer e), Value ?g)"
    by (rule generateFields_answered [OF answered])
  have pre: "snd (preview ?g) = Value ()"
    by (simp add: preview_def)
  have tail: "andThen (preview ?g) (\<lambda>_. andThen (confirmApply e) (\<lambda>_. ret ?g)) =
      (fst (preview ?g) @ fst (confirmApply e), if confirm_apply e then Value ?g else Exit 0)"
    by (simp add: andThen_returned [OF pre] confirmApply_eq seq_simps ret_def)
  have mid: "andThen (getRepositoryContext e repo)
        (\<lambda>repoContext. andThen (generateFields e repoContext (checkbox_answer e))
           (\<lambda>generatedData. andThen (preview generatedData)
              (\<lambda>_. andThen (confirmApply e) (\<lambda>_. ret generatedData)))) =
      (fst (getRepositoryContext e repo) @ generationEvents (checkbox_answer e) @
       fst (preview ?g) @ fst (confirmApply e),
       if confirm_apply e then Value ?g else Exit 0)"
    by (simp only: andThen_returned [OF ctx] gen andThen_Value tail fst_conv snd_conv)
  show ?thesis
    unfolding prepare_def Let_def
    by (simp only: checkReadme_events andThen_Value
        andThen_returned [OF chooseFields_returned [OF shown ticked]] andThen_say mid
        fst_conv snd_conv append_Cons append_Nil append_assoc)
qed

lemma no_requests:
  "filter isGenerationCall (fst (chooseFields e missing)) = []"
  "filter isGenerationCall (fst (getRepositoryContext e repo)) = []"
  "filter isGenerationCall (fst (preview g)) = []"
  "filter isGenerationCall (fst (confirmApply e)) = []"
proof -
  show "filter isGenerationCall (fst (chooseFields e missing)) = []"
    using chooseFields_quiet [of _ e missing] by (auto simp: filter_empty_conv)
  show "filter isGenerationCall (fst (getRepositoryContext e repo)) = []"
    by (auto simp: getRepositoryContext_def Let_def fetchPackageJson_def scanConfigFiles_events
        filter_empty_conv split: sum.split option.splits)
  show "filter isGenerationCall (fst (preview g)) = []"
    by (simp add: preview_def)
  show "filter isGenerationCall (fst (confirmApply e)) = []"
    by (simp add: confirmApply_eq)
qed

lemma generationEvents_requests:
  "filter isGenerationCall (generationEvents sel) = generationRequests sel"
  by (simp add: generationEvents_def generationRequests_def)

lemma prepare_requests:
  assumes shown: "fst (snd (checkReadme e (missingMetadata repo))) \<noteq> [] \<or> confirm_regenerate e"
    and ticked: "checkbox_answer e \<noteq> []"
    and answered: "\<forall>n\<in>set (checkbox_answer e). n \<in> set fieldNames \<longrightarrow> chat e n = Inr (answers n)"
  shows "filter isGenerationCall (fst (prepare e repo)) = generationRequests (checkbox_answer e)"
  unfolding prepare_answered [OF assms] fst_conv
  by (simp add: no_requests generationEvents_requests)

section \<open>Field selection: the claims\<close>

text \<open>
  Claim C8.  A checkbox is pre-checked exactly when its field is in
  \<^verbatim>\<open>missing\<close>.  When \<^verbatim>\<open>missing\<close> is not empty the checkbox prompt follows the
  line that lists the missing fields.  When it is empty the user is first
  asked to confirm; on a refusal the program exits with status 0 and no
  checkbox is shown; on a confirmation the checkbox is shown with nothing
  pre-checked.  Whatever \<^verbatim>\<open>missing\<close> is, the fields handed on to generation are
  the ones the user ticked: \<^verbatim>\<open>missing\<close> gates nothing.  The generation step,
  given a list of ticked fields whose requests are all answered, runs the
  blocks of exactly those fields, in the fixed order, and returns the object
  holding exactly those fields, each made from its answer.  The run up to
  the confirmation does so with the list the user ticked, for every
  repository and so for every value of \<^verbatim>\<open>missing\<close>: once the checkbox is shown
  and a field is ticked, the requests sent to the service are those of the
  ticked fields, and the data handed to the apply step holds exactly the
  ticked fields.
\<close>

theorem missing_only_preselects:
  "fieldChoices missing =
     [(''description'', ''description'' \<in> set missing),
      (''website'', ''website'' \<in> set missing),
      (''topics'', ''topics'' \<in> set missing),
      (''readme'', ''README.md'' \<in> set missing)]
   \<and> (missing \<noteq> [] \<longrightarrow>
        chooseFields e missing =
          (ConsoleLog (''Missing fields: '' @ join '', '' missing) #
           PromptCheckbox (fieldChoices missing) #
           (if checkbox_answer e = [] then [ConsoleLog ''No fields selected. Exiting.''] else []),
           if checkbox_answer e = [] then Exit 0 else Value (checkbox_answer e)))
   \<and> (missing = [] \<and> \<not> confirm_regenerate e \<longrightarrow>
        chooseFields e missing =
          ([ConsoleLog ''This repository already has all metadata fields populated!'',
            PromptConfirm ''Would you like to regenerate any fields anyway?'' False],
           Exit 0))
   \<and> (missing = [] \<and> confirm_regenerate e \<longrightarrow>
        chooseFields e missing =
          (ConsoleLog ''This repository already has all metadata fields populated!'' #
           PromptConfirm ''Would you like to regenerate any fields anyway?'' False #
           PromptCheckbox
             [(''description'', False), (''website'', False), (''topics'', False),
              (''readme'', False)] #
           (if checkbox_answer e = [] then [ConsoleLog ''No fields selected. Exiting.''] else []),
           if checkbox_answer e = [] then Exit 0 else Value (checkbox_answer e)))
   \<and> (\<forall>fields. snd (chooseFields e missing) = Value fields \<longrightarrow> fields = checkbox_answer e)
   \<and> (\<forall>ctx sel answers.
        (\<forall>n\<in>set sel. n \<in> set fieldNames \<longrightarrow> chat e n = Inr (answers n)) \<longrightarrow>
        generateFields e ctx sel =
          (generationEvents sel, Value (generatedFrom (toLowerCase e) answers sel)))
   \<and> (\<forall>repo answers.
        (fst (snd (checkReadme e (missingMetadata repo))) \<noteq> [] \<or> confirm_regenerate e) \<and>
        checkbox_answer e \<noteq> [] \<and>
        (\<forall>n\<in>set (checkbox_answer e). n \<in> set fieldNames \<longrightarrow> chat e n = Inr (answers n)) \<longrightarrow>
        prepare e repo =
          (CallGetReadme #
           fst (chooseFields e (fst (snd (checkReadme e (missingMetadata repo))))) @
           ConsoleLog ''Analyzing repository content...'' #
           fst (getRepositoryContext e repo) @
           generationEvents (checkbox_answer e) @
           fst (preview (generatedFrom (toLowerCase e) answers (checkbox_answer e))) @
           fst (confirmApply e),
           if confirm_apply e
           then Value (generatedFrom (toLowerCase e) answers (checkbox_answer e)) else Exit 0) \<and>
        filter isGenerationCall (fst (prepare e repo)) = generationRequests (checkbox_answer e))"
proof -
  have selection: "fieldChoices missing =
     [(''description'', ''description'' \<in> set missing),
      (''website'', ''website'' \<in> set missing),
      (''topics'', ''topics'' \<in> set missing),
      (''readme'', ''README.md'' \<in> set missing)]
   \<and> (missing \<noteq> [] \<longrightarrow>
        chooseFields e missing =
          (ConsoleLog (''Missing fields: '' @ join '', '' missing) #
           PromptCheckbox (fieldChoices missing) #
           (if checkbox_answer e = [] then [ConsoleLog ''No fields selected. Exiting.''] else []),
           if checkbox_answer e = [] then Exit 0 else Value (checkbox_answer e)))
   \<and> (missing = [] \<and> \<not> confirm_regenerate e \<longrightarrow>
        chooseFields e missing =
          ([ConsoleLog ''This repository already has all metadata fields populated!'',
            PromptConfirm ''Would you like to regenerate any fields anyway?'' False],
           Exit 0))
   \<and> (missing = [] \<and> confirm_regenerate e \<longrightarrow>
        chooseFields e missing =
          (ConsoleLog ''This repository already has all metadata fields populated!'' #
           PromptConfirm ''Would you like to regenerate any fields anyway?'' False #
           PromptCheckbox
             [(''description'', False), (''website'', False), (''topics'', False),
              (''readme'', False)] #
           (if checkbox_answer e = [] then [ConsoleLog ''No fields selected. Exiting.''] else []),
           if checkbox_answer e = [] then Exit 0 else Value (checkbox_answer e)))
   \<and> (\<forall>fields. snd (chooseFields e missing) = Value fields \<longrightarrow> fields = checkbox_answer e)"
    by (simp add: chooseFields_eq askFields_eq fieldChoices_def)
  have generation: "\<forall>ctx sel answers.
        (\<forall>n\<in>set sel. n \<in> set fieldNames \<longrightarrow> chat e n = Inr (answers n)) \<longrightarrow>
        generateFields e ctx sel =
          (generationEvents sel, Value (generatedFrom (toLowerCase e) answers sel))"
    using generateFields_answered by blast
  have whole: "\<forall>repo answers.
        (fst (snd (checkReadme e (missingMetadata repo))) \<noteq> [] \<or> confirm_regenerate e) \<and>
        checkbox_answer e \<noteq> [] \<and>
        (\<forall>n\<in>set (checkbox_answer e). n \<in> set fieldNames \<longrightarrow> chat e n = Inr (answers n)) \<longrightarrow>
        prepare e repo =
          (CallGetReadme #
           fst (chooseFields e (fst (snd (checkReadme e (missingMetadata repo))))) @
           ConsoleLog ''Analyzing repository content...'' #
           fst (getRepositoryContext e repo) @
           generationEvents (checkbox_answer e) @
           fst (preview (generatedFrom (toLowerCase e) answers (checkbox_answer e))) @
           fst (confirmApply e),
           if confirm_apply e
           then Value (generatedFrom (toLowerCase e) answers (checkbox_answer e)) else Exit 0) \<and>
        filter isGenerationCall (fst (prepare e repo)) = generationRequests (checkbox_answer e)"
  proof (intro allI impI, elim conjE)
    fix repo answers
    assume a: "fst (snd (checkReadme e (missingMetadata repo))) \<noteq> [] \<or> confirm_regenerate e"
      "checkbox_answer e \<noteq> []"
      "\<forall>n\<in>set (checkbox_answer e). n \<in> set fieldNames \<longrightarrow> chat e n = Inr (answers n)"
    from prepare_answered [OF a] prepare_requests [OF a]
    show "prepare e repo =
          (CallGetReadme #
           fst (chooseFields e (fst (snd (checkReadme e (missingMetadata repo))))) @
           ConsoleLog ''Analyzing repository content...'' #
           fst (getRepositoryContext e repo) @
           generationEvents (checkbox_answer e) @
           fst (preview (generatedFrom (toLowerCase e) answers (checkbox_answer e))) @
           fst (confirmApply e),
           if confirm_apply e
           then Value (generatedFrom (toLowerCase e) answers (checkbox_answer e)) else Exit 0) \<and>
        filter isGenerationCall (fst (prepare e repo)) = generationRequests (checkbox_answer e)"
      by (rule conjI)
  qed
  note s1 = selection [THEN conjunct1]
    and s2 = selection [THEN conjunct2, THEN conjunct1]
    and s3 = selection [THEN conjunct2, THEN conjunct2, THEN conjunct1]
    and s4 = selection [THEN conjunct2, THEN conjunct2, THEN conjunct2, THEN conjunct1]
    and s5 = selection [THEN conjunct2, THEN conjunct2, THEN conjunct2, THEN conjunct2]
  from s1 s2 s3 s4 s5 generation whole show ?thesis
    by (intro conjI)
qed

theorem missing_only_preselects_witness:
  "chooseFields (sampleEnv\<lparr> checkbox_answer := [''readme''] \<rparr>) [''description''] =
     ([ConsoleLog ''Missing fields: description'',
       PromptCheckbox
         [(''description'', True), (''website'', False), (''topics'', False), (''readme'', False)]],
      Value [''readme''])
   \<and> chooseFields sampleEnv [] =
     ([ConsoleLog ''This repository already has all metadata fields populated!'',
       PromptConfirm ''Would you like to regenerate any fields anyway?'' False],
      Exit 0)
   \<and> chooseFields (sampleEnv\<lparr> confirm_regenerate := True \<rparr>) [] =
     ([ConsoleLog ''This repository already has all metadata fields populated!'',
       PromptConfirm ''Would you like to regenerate any fields anyway?'' False,
       PromptCheckbox
         [(''description'', False), (''website'', False), (''topics'', False), (''readme'', False)]],
      Value [''description'', ''website'', ''topics'', ''readme''])
   \<and> fst (snd (checkReadme
               (sampleEnv\<lparr> getReadme_check := Inr (js ''abc123''), checkbox_answer := [''readme''] \<rparr>)
               (missingMetadata
                  (sampleRepo\<lparr> repo_homepage := Some (js ''https://x.com''),
                               repo_topics := Some [js ''a''] \<rparr>)))) =
       [''description'']
   \<and> snd (prepare
            (sampleEnv\<lparr> getReadme_check := Inr (js ''abc123''), checkbox_answer := [''readme''] \<rparr>)
            (sampleRepo\<lparr> repo_homepage := Some (js ''https://x.com''),
                         repo_topics := Some [js ''a''] \<rparr>)) =
       Value (noData\<lparr> gen_readme := Some (js ''A demo project.'') \<rparr>)
   \<and> filter isGenerationCall
         (fst (prepare
            (sampleEnv\<lparr> getReadme_check := Inr (js ''abc123''), checkbox_answer := [''readme''] \<rparr>)
            (sampleRepo\<lparr> repo_homepage := Some (js ''https://x.com''),
                         repo_topics := Some [js ''a''] \<rparr>))) =
       [CallChat ''readme'' 2000]"
proof -
  let ?e1 = "sampleEnv\<lparr> checkbox_answer := [''readme''] \<rparr>"
  let ?e3 = "sampleEnv\<lparr> confirm_regenerate := True \<rparr>"
  note shown = missing_only_preselects
    [of "[''description'']" ?e1, THEN conjunct2, THEN conjunct1, rule_format]
  note declined = missing_only_preselects
    [of "[]" sampleEnv, THEN conjunct2, THEN conjunct2, THEN conjunct1, rule_format]
  note confirmed = missing_only_preselects
    [of "[]" ?e3, THEN conjunct2, THEN conjunct2, THEN conjunct2, THEN conjunct1, rule_format]
  have c: "fieldChoices [''description''] =
     [(''description'', True), (''website'', False), (''topics'', False), (''readme'', False)]"
    by (simp add: fieldChoices_def)
  have "chooseFields ?e1 [''description''] =
          (ConsoleLog (''Missing fields: '' @ join '', '' [''description'']) #
           PromptCheckbox (fieldChoices [''description'']) #
           (if checkbox_answer ?e1 = [] then [ConsoleLog ''No fields selected. Exiting.''] else []),
           if checkbox_answer ?e1 = [] then Exit 0 else Value (checkbox_answer ?e1))"
    by (rule shown) simp
  then have 1: "chooseFields ?e1 [''description''] =
     ([ConsoleLog ''Missing fields: description'',
       PromptCheckbox
         [(''description'', True), (''website'', False), (''topics'', False), (''readme'', False)]],
      Value [''readme''])"
    by (simp add: c)
  have 2: "chooseFields sampleEnv [] =
     ([ConsoleLog ''This repository already has all metadata fields populated!'',
       PromptConfirm ''Would you like to regenerate any fields anyway?'' False],
      Exit 0)"
    by (rule declined) (simp add: sampleEnv_def)
  have "chooseFields ?e3 [] =
          (ConsoleLog ''This repository already has all metadata fields populated!'' #
           PromptConfirm ''Would you like to regenerate any fields anyway?'' False #
           PromptCheckbox
             [(''description'', False), (''website'', False), (''topics'', False),
              (''readme'', False)] #
           (if checkbox_answer ?e3 = [] then [ConsoleLog ''No fields selected. Exiting.''] else []),
           if checkbox_answer ?e3 = [] then Exit 0 else Value (checkbox_answer ?e3))"
    by (rule confirmed) simp
  then have 3: "chooseFields ?e3 [] =
     ([ConsoleLog ''This repository already has all metadata fields populated!'',
       PromptConfirm ''Would you like to regenerate any fields anyway?'' False,
       PromptCheckbox
         [(''description'', False), (''website'', False), (''topics'', False), (''readme'', False)]],
      Value [''description'', ''website'', ''topics'', ''readme''])"
    by (simp add: sampleEnv_def)
  let ?e2 = "sampleEnv\<lparr> getReadme_check := Inr (js ''abc123''), checkbox_answer := [''readme''] \<rparr>"
  let ?r2 = "sampleRepo\<lparr> repo_homepage := Some (js ''https://x.com''),
                         repo_topics := Some [js ''a''] \<rparr>"
  let ?answers = "\<lambda>n::string. js '' A demo project. ''"
  have 4: "fst (snd (checkReadme ?e2 (missingMetadata ?r2))) = [''description'']"
    by (simp add: checkReadme_def missingMetadata_def blank_def sampleRepo_def trim_def js_def
        isWhiteSpace_def)
  have env2: "checkbox_answer ?e2 = [''readme'']" "confirm_apply ?e2"
    "chat ?e2 ''readme'' = Inr (js '' A demo project. '')"
    by (simp_all add: sampleEnv_def)
  have hyp: "(fst (snd (checkReadme ?e2 (missingMetadata ?r2))) \<noteq> [] \<or> confirm_regenerate ?e2) \<and>
        checkbox_answer ?e2 \<noteq> [] \<and>
        (\<forall>n\<in>set (checkbox_answer ?e2). n \<in> set fieldNames \<longrightarrow> chat ?e2 n = Inr (?answers n))"
    unfolding 4 env2(1) using env2(3) by simp
  note whole = missing_only_preselects
    [of "[]" ?e2, THEN conjunct2, THEN conjunct2, THEN conjunct2, THEN conjunct2,
     THEN conjunct2, THEN conjunct2, THEN spec, THEN spec, THEN mp, OF hyp]
  have t: "trim (js '' A demo project. '') = js ''A demo project.''"
    by (simp add: trim_def js_def isWhiteSpace_def)
  have g: "generatedFrom (toLowerCase ?e2) ?answers [''readme''] =
      noData\<lparr> gen_readme := Some (js ''A demo project.'') \<rparr>"
    by (simp add: generatedFrom_def noData_def t)
  have 5: "snd (prepare ?e2 ?r2) = Value (noData\<lparr> gen_readme := Some (js ''A demo project.'') \<rparr>)"
    unfolding whole [THEN conjunct1] snd_conv env2(1) g using env2(2) by simp
  have 6: "filter isGenerationCall (fst (prepare ?e2 ?r2)) = [CallChat ''readme'' 2000]"
    unfolding whole [THEN conjunct2] env2(1) by (simp add: generationRequests_def)
  from 1 2 3 4 5 6 show ?thesis by (intro conjI)
qed

text \<open>
  Claim C9.  If the user ticks no field, the run exits with status 0, and no
  event of the run is a fetch of repository content, a request to the
  text-generation service or a write to the hosting platform.  When the
  checkbox was shown, the run ends with the checkbox prompt and the line
  \<^verbatim>\<open>No fields selected. Exiting.\<close>
\<close>

theorem no_fields_selected:
  assumes "checkbox_answer e = []"
  shows "snd (run e repo) = Exit 0
     \<and> exitStatus (run e repo) = 0
     \<and> (\<forall>ev\<in>set (fst (run e repo)).
          \<not> isContextCall ev \<and> \<not> isGenerationCall ev \<and> \<not> isWriteCall ev)
     \<and> (fst (snd (checkReadme e (missingMetadata repo))) \<noteq> [] \<or> confirm_regenerate e \<longrightarrow>
          (\<exists>before. fst (run e repo) =
             before @
             [PromptCheckbox (fieldChoices (fst (snd (checkReadme e (missingMetadata repo))))),
              ConsoleLog ''No fields selected. Exiting.'']))"
proof -
  let ?missing = "fst (snd (checkReadme e (missingMetadata repo)))"
  have run: "run e repo = (CallGetReadme # fst (chooseFields e ?missing), Exit 0)"
    by (simp add: run_def main_def prepare_no_fields [OF assms] seq_simps)
  have quiet: "\<forall>ev\<in>set (fst (run e repo)).
          \<not> isContextCall ev \<and> \<not> isGenerationCall ev \<and> \<not> isWriteCall ev"
    using chooseFields_quiet [of _ e ?missing] by (auto simp: run)
  have shown: "\<exists>before. fst (run e repo) =
             before @ [PromptCheckbox (fieldChoices ?missing),
              ConsoleLog ''No fields selected. Exiting.'']"
    if "?missing \<noteq> [] \<or> confirm_regenerate e"
  proof (cases "?missing = []")
    case True
    with that assms have "fst (run e repo) =
        [CallGetReadme, ConsoleLog ''This repository already has all metadata fields populated!'',
         PromptConfirm ''Would you like to regenerate any fields anyway?'' False] @
        [PromptCheckbox (fieldChoices ?missing), ConsoleLog ''No fields selected. Exiting.'']"
      by (simp add: run chooseFields_eq askFields_eq)
    then show ?thesis by blast
  next
    case False
    with assms have "fst (run e repo) =
        [CallGetReadme, ConsoleLog (''Missing fields: '' @ join '', '' ?missing)] @
        [PromptCheckbox (fieldChoices ?missing), ConsoleLog ''No fields selected. Exiting.'']"
      by (simp add: run chooseFields_eq askFields_eq)
    then show ?thesis by blast
  qed
  from run quiet shown show ?thesis
    by (simp add: exitStatus_def)
qed

theorem no_fields_selected_witness:
  "checkbox_answer (sampleEnv\<lparr> checkbox_answer := [] \<rparr>) = []
   \<and> run (sampleEnv\<lparr> checkbox_answer := [] \<rparr>) sampleRepo =
       ([CallGetReadme,
         ConsoleLog ''Missing fields: description, website, topics, README.md'',
         PromptCheckbox
           [(''description'', True), (''website'', True), (''topics'', True), (''readme'', True)],
         ConsoleLog ''No fields selected. Exiting.''],
        Exit 0)
   \<and> exitStatus (run (sampleEnv\<lparr> checkbox_answer := [] \<rparr>) sampleRepo) = 0"
proof -
  let ?e = "sampleEnv\<lparr> checkbox_answer := [] \<rparr>"
  have h: "checkbox_answer ?e = []" by simp
  have r: "run ?e sampleRepo =
       ([CallGetReadme,
         ConsoleLog ''Missing fields: description, website, topics, README.md'',
         PromptCheckbox
           [(''description'', True), (''website'', True), (''topics'', True), (''readme'', True)],
         ConsoleLog ''No fields selected. Exiting.''],
        Exit 0)"
    by (simp add: run_def main_def prepare_def Let_def checkReadme_def missingMetadata_def
        blank_def chooseFields_eq askFields_eq fieldChoices_def seq_simps sampleEnv_def
        sampleRepo_def notFound_def)
  from no_fields_selected [OF h, of sampleRepo] h r show ?thesis by simp
qed

section \<open>The whole run: lemmas\<close>

lemma snd_andThen_Value: "snd m = Value x \<Longrightarrow> snd (andThen m f) = snd (f x)"
  by (simp add: andThen_def)

lemma sample_generators:
  "chat e ''description'' = Inr (js '' A demo project. '') \<Longrightarrow>
     snd (generateDescription e ctx) = Value (js ''A demo project.'')"
  "chat e ''website'' = Inr (js '' A demo project. '') \<Longrightarrow>
     snd (generateWebsite e ctx) = Value (js ''A demo project.'')"
  "chat e ''readme'' = Inr (js '' A demo project. '') \<Longrightarrow>
     snd (generateReadme e ctx) = Value (js ''A demo project.'')"
  "chat e ''topics'' = Inr (js ''Web App, react , Node.js!!, '') \<Longrightarrow> toLowerCase e = asciiLower \<Longrightarrow>
     snd (generateTopics e ctx) = Value [js ''web-app'', js ''react'', js ''node.js!!'']"
proof -
  have t: "trim (js '' A demo project. '') = js ''A demo project.''"
    by (simp add: trim_def js_def isWhiteSpace_def)
  show "chat e ''description'' = Inr (js '' A demo project. '') \<Longrightarrow>
     snd (generateDescription e ctx) = Value (js ''A demo project.'')"
    by (simp add: generateDescription_def t substring0_def) (simp add: js_def)
  show "chat e ''website'' = Inr (js '' A demo project. '') \<Longrightarrow>
     snd (generateWebsite e ctx) = Value (js ''A demo project.'')"
    by (simp add: generateWebsite_def t)
  show "chat e ''readme'' = Inr (js '' A demo project. '') \<Longrightarrow>
     snd (generateReadme e ctx) = Value (js ''A demo project.'')"
    by (simp add: generateReadme_def t)
  show "chat e ''topics'' = Inr (js ''Web App, react , Node.js!!, '') \<Longrightarrow> toLowerCase e = asciiLower \<Longrightarrow>
     snd (generateTopics e ctx) = Value [js ''web-app'', js ''react'', js ''node.js!!'']"
    by (simp add: generateTopics_def parseTopics_trim sample_topics)
qed

lemma sample_generateFields:
  assumes "chat e ''description'' = Inr (js '' A demo project. '')"
    and "chat e ''website'' = Inr (js '' A demo project. '')"
    and "chat e ''readme'' = Inr (js '' A demo project. '')"
    and "chat e ''topics'' = Inr (js ''Web App, react , Node.js!!, '')"
    and "toLowerCase e = asciiLower"
  shows "snd (generateFields e ctx [''description'', ''website'', ''topics'', ''readme'']) =
           Value sampleData"
proof -
  note g = sample_generators(1) [OF assms(1), of ctx] sample_generators(2) [OF assms(2), of ctx]
    sample_generators(3) [OF assms(3), of ctx] sample_generators(4) [OF assms(4,5), of ctx]
  show ?thesis
    unfolding generateFields_def
    by (simp add: snd_andThen_Value g say_def ret_def sampleData_def noData_def)
qed


lemma sample_missing:
  "getReadme_check e = Inl notFound \<Longrightarrow>
   checkReadme e (missingMetadata sampleRepo) =
     ([CallGetReadme], [''description'', ''website'', ''topics'', ''README.md''], False)"
  by (simp add: checkReadme_def missingMetadata_def blank_def sampleRepo_def notFound_def)

lemma sample_prepare:
  "snd (prepare (sampleEnv\<lparr> createOrUpdateFileContents := Inl serverError \<rparr>) sampleRepo) =
     Value sampleData"
proof -
  let ?e = "sampleEnv\<lparr> createOrUpdateFileContents := Inl serverError \<rparr>"
  let ?fields = "[''description'', ''website'', ''topics'', ''readme'']"
  have env: "getReadme_check ?e = Inl notFound" "checkbox_answer ?e = ?fields"
    "confirm_apply ?e" "toLowerCase ?e = asciiLower"
    "chat ?e ''description'' = Inr (js '' A demo project. '')"
    "chat ?e ''website'' = Inr (js '' A demo project. '')"
    "chat ?e ''readme'' = Inr (js '' A demo project. '')"
    "chat ?e ''topics'' = Inr (js ''Web App, react , Node.js!!, '')"
    by (simp_all add: sampleEnv_def)
  have choose: "snd (chooseFields ?e [''description'', ''website'', ''topics'', ''README.md'']) =
      Value ?fields"
    by (simp add: chooseFields_eq askFields_eq env(2))
  obtain ctx where ctx: "snd (getRepositoryContext ?e sampleRepo) = Value ctx"
    using getRepositoryContext_Value by blast
  have gen: "snd (generateFields ?e ctx ?fields) = Value sampleData"
    by (rule sample_generateFields [OF env(5,6,7,8,4)])
  have pre: "snd (preview g) = Value ()" for g
    by (simp add: preview_def)
  have conf: "snd (confirmApply ?e) = Value ()"
    using env(3) by (simp add: confirmApply_def andThen_def ret_def)
  have say: "snd (say t) = Value ()" for t
    by (simp add: say_def)
  show ?thesis
    unfolding prepare_def Let_def sample_missing [OF env(1)] fst_conv snd_conv
    by (simp only: snd_andThen_Value [OF snd_conv] snd_andThen_Value [OF choose]
        snd_andThen_Value [OF say] snd_andThen_Value [OF ctx] snd_andThen_Value [OF gen]
        snd_andThen_Value [OF pre] snd_andThen_Value [OF conf] ret_def snd_conv)
qed

lemma probeConfig_write_indep:
  "probeConfig (e\<lparr> createOrUpdateFileContents := x \<rparr>) f = probeConfig e f"
  by (simp add: probeConfig_def split: sum.split option.split)

lemma scanConfigFiles_write_indep:
  "scanConfigFiles (e\<lparr> createOrUpdateFileContents := x \<rparr>) fs = scanConfigFiles e fs"
  by (induction fs) (simp_all add: probeConfig_write_indep split: option.split)

lemma fetchPackageJson_write_indep:
  "fetchPackageJson (e\<lparr> createOrUpdateFileContents := x \<rparr>) j = fetchPackageJson e j"
  by (simp add: fetchPackageJson_def split: sum.split option.split)

lemma getRepositoryContext_write_indep:
  "getRepositoryContext (e\<lparr> createOrUpdateFileContents := x \<rparr>) repo =
     getRepositoryContext e repo"
  by (simp add: getRepositoryContext_def Let_def fetchPackageJson_write_indep
      scanConfigFiles_write_indep split: sum.split)

lemma generators_write_indep:
  "generateDescription (e\<lparr> createOrUpdateFileContents := x \<rparr>) ctx = generateDescription e ctx"
  "generateWebsite (e\<lparr> createOrUpdateFileContents := x \<rparr>) ctx = generateWebsite e ctx"
  "generateTopics (e\<lparr> createOrUpdateFileContents := x \<rparr>) ctx = generateTopics e ctx"
  "generateReadme (e\<lparr> createOrUpdateFileContents := x \<rparr>) ctx = generateReadme e ctx"
  by (simp_all add: generateDescription_def generateWebsite_def generateTopics_def
      generateReadme_def split: sum.split)

lemma selection_write_indep:
  "checkReadme (e\<lparr> createOrUpdateFileContents := x \<rparr>) m = checkReadme e m"
  "chooseFields (e\<lparr> createOrUpdateFileContents := x \<rparr>) m = chooseFields e m"
  "confirmApply (e\<lparr> createOrUpdateFileContents := x \<rparr>) = confirmApply e"
  by (simp_all add: checkReadme_def chooseFields_def askFields_def confirmApply_def cong: if_cong)

lemma generateFields_write_indep:
  "generateFields (e\<lparr> createOrUpdateFileContents := x \<rparr>) ctx sel =
     generateFields e ctx sel"
  by (simp add: generateFields_def generators_write_indep cong: if_cong)

lemma prepare_write_indep:
  "prepare (e\<lparr> createOrUpdateFileContents := x \<rparr>) repo = prepare e repo"
  by (simp add: prepare_def selection_write_indep getRepositoryContext_write_indep
      generateFields_write_indep)

lemma applyChanges_success:
  assumes "gen_readme g = Some readme" and "readme \<noteq> []"
    and "truthy (gen_description g) \<or> truthy (gen_website g) \<longrightarrow> repos_update e = Inr ()"
    and "gen_topics g \<noteq> None \<longrightarrow> replaceAllTopics e = Inr ()"
    and "createOrUpdateFileContents e = Inr ()"
  shows "applyChanges e g =
     (ConsoleLog ''Applying changes...'' # metadataEvents g @ topicsEvents g @
        [CallGetReadme, writeCall e readme,
         ConsoleLog ''Created/Updated README.md'',
         ConsoleLog ''All changes applied successfully!''],
      Value ())"
  using assms(5)
  by (simp add: applyChanges_def applyMetadata_ok [OF assms(3)] applyTopics_ok [OF assms(4)]
      applyReadme_eq [OF assms(1,2)] seq_simps say_def)

lemma run_readme_failure:
  assumes "snd (prepare e repo) = Value g"
    and "gen_readme g = Some readme" and "readme \<noteq> []"
    and "truthy (gen_description g) \<or> truthy (gen_website g) \<longrightarrow> repos_update e = Inr ()"
    and "gen_topics g \<noteq> None \<longrightarrow> replaceAllTopics e = Inr ()"
    and "createOrUpdateFileContents e = Inl err"
  shows "run e repo =
     (fst (prepare e repo) @
      ConsoleLog ''Applying changes...'' # metadataEvents g @ topicsEvents g @
        [CallGetReadme, writeCall e readme,
         ConsoleError ''Error creating README: '' (message err),
         ConsoleLog ''All changes applied successfully!''],
      Value ())"
proof -
  have m: "main e repo = (fst (prepare e repo) @ fst (applyChanges e g), snd (applyChanges e g))"
    using assms(1) by (simp add: main_def andThen_def)
  show ?thesis
    unfolding run_def m applyChanges_readme_failure [OF assms(2-6)]
    by (simp add: tryCatch_def)
qed


lemma run_full_success:
  assumes "snd (prepare e repo) = Value g"
    and "gen_readme g = Some readme" and "readme \<noteq> []"
    and "truthy (gen_description g) \<or> truthy (gen_website g) \<longrightarrow> repos_update e = Inr ()"
    and "gen_topics g \<noteq> None \<longrightarrow> replaceAllTopics e = Inr ()"
    and "createOrUpdateFileContents e = Inr ()"
  shows "snd (run e repo) = Value ()"
proof -
  have m: "main e repo = (fst (prepare e repo) @ fst (applyChanges e g), snd (applyChanges e g))"
    using assms(1) by (simp add: main_def andThen_def)
  show ?thesis
    unfolding run_def m applyChanges_success [OF assms(2-6)]
    by (simp add: tryCatch_def)
qed


section \<open>The whole run: the claim\<close>

text \<open>
  Claim C10.  Take a run that reaches the apply step with a generated,
  non-empty README, in which the metadata and topics calls go through and
  the write of the README throws.  The run still ends as a success:
  \<^verbatim>\<open>main\<close> returns, the exit status is 0, and the last two lines printed
  are the error of the README field and the banner
  \<^verbatim>\<open>All changes applied successfully!\<close>  The same run with a successful
  write ends with status 0 as well, so the exit status does not tell the two
  apart.
\<close>

theorem readme_failure_exit_status:
  assumes "snd (prepare e repo) = Value g"
    and "gen_readme g = Some readme" and "readme \<noteq> []"
    and "truthy (gen_description g) \<or> truthy (gen_website g) \<longrightarrow> repos_update e = Inr ()"
    and "gen_topics g \<noteq> None \<longrightarrow> replaceAllTopics e = Inr ()"
    and "createOrUpdateFileContents e = Inl err"
  shows "snd (run e repo) = Value ()
     \<and> exitStatus (run e repo) = 0
     \<and> (\<exists>before. fst (run e repo) =
           before @ [ConsoleError ''Error creating README: '' (message err),
                     ConsoleLog ''All changes applied successfully!''])
     \<and> exitStatus (run (e\<lparr> createOrUpdateFileContents := Inr () \<rparr>) repo) = 0"
proof -
  note r = run_readme_failure [OF assms]
  let ?before = "fst (prepare e repo) @
      ConsoleLog ''Applying changes...'' # metadataEvents g @ topicsEvents g @
        [CallGetReadme, writeCall e readme]"
  have 1: "snd (run e repo) = Value ()"
    by (simp only: r snd_conv)
  then have 2: "exitStatus (run e repo) = 0"
    by (simp add: exitStatus_def)
  have events: "fst (run e repo) =
      ?before @ [ConsoleError ''Error creating README: '' (message err),
                 ConsoleLog ''All changes applied successfully!'']"
    by (simp only: r fst_conv append_Cons append_Nil append_assoc)
  have 3: "\<exists>before. fst (run e repo) =
           before @ [ConsoleError ''Error creating README: '' (message err),
                     ConsoleLog ''All changes applied successfully!'']"
  proof (intro exI)
    show "fst (run e repo) =
      ?before @ [ConsoleError ''Error creating README: '' (message err),
                 ConsoleLog ''All changes applied successfully!'']"
      by (fact events)
  qed
  let ?ok = "e\<lparr> createOrUpdateFileContents := Inr () \<rparr>"
  have p: "snd (prepare ?ok repo) = Value g"
    using assms(1) by (simp only: prepare_write_indep)
  have u: "truthy (gen_description g) \<or> truthy (gen_website g) \<longrightarrow> repos_update ?ok = Inr ()"
    and t: "gen_topics g \<noteq> None \<longrightarrow> replaceAllTopics ?ok = Inr ()"
    and w: "createOrUpdateFileContents ?ok = Inr ()"
    using assms(4,5) by simp_all
  have "snd (run ?ok repo) = Value ()"
    by (rule run_full_success [OF p assms(2,3) u t w])
  then have 4: "exitStatus (run ?ok repo) = 0"
    by (simp add: exitStatus_def)
  from 1 2 3 4 show ?thesis by (intro conjI)
qed


theorem readme_failure_exit_status_witness:
  "snd (prepare (sampleEnv\<lparr> createOrUpdateFileContents := Inl serverError \<rparr>) sampleRepo) =
     Value sampleData
   \<and> createOrUpdateFileContents (sampleEnv\<lparr> createOrUpdateFileContents := Inl serverError \<rparr>) =
       Inl serverError
   \<and> snd (run (sampleEnv\<lparr> createOrUpdateFileContents := Inl serverError \<rparr>) sampleRepo) = Value ()
   \<and> exitStatus (run (sampleEnv\<lparr> createOrUpdateFileContents := Inl serverError \<rparr>) sampleRepo) = 0"
proof -
  let ?e = "sampleEnv\<lparr> createOrUpdateFileContents := Inl serverError \<rparr>"
  have env: "truthy (gen_description sampleData) \<or> truthy (gen_website sampleData) \<longrightarrow>
      repos_update ?e = Inr ()"
    "gen_topics sampleData \<noteq> None \<longrightarrow> replaceAllTopics ?e = Inr ()"
    "createOrUpdateFileContents ?e = Inl serverError"
    by (simp_all add: sampleEnv_def)
  note t = readme_failure_exit_status
    [OF sample_prepare sampleData_truthy(4) sampleData_truthy(5) env]
  from sample_prepare env(3) t [THEN conjunct1] t [THEN conjunct2, THEN conjunct1]
  show ?thesis by (intro conjI)
qed

end
